theory Spec2Isabelle
  imports Complex_Main "HOL-Library.Char_ord" "HOL-Library.List_Lexorder"
begin

section \<open>Semantic indexing pipeline of the incident records (src/project)\<close>

text \<open>
  The pipeline of \<^verbatim>\<open>src/project\<close> is a thin layer of Python over NumPy, pandas, SciPy and
  scikit-learn. Each function of the repository is translated below, and the library
  calls it makes are given their documented meaning as HOL functions: numbers are reals
  (the code uses 64-bit floats), a sparse row is a list of (column, value) pairs, a dense
  array carries its number of columns, a DataFrame is a list of named columns, and every
  exception the code can raise is a value \<open>Inl e\<close> of the result.
\<close>

subsection \<open>Exceptions\<close>

datatype py_error =
    ValueError string
  | KeyError string
  | IndexError
  | ZeroDivisionError
  | TypeError

definition bind_r :: "py_error + 'a \<Rightarrow> ('a \<Rightarrow> py_error + 'b) \<Rightarrow> py_error + 'b" where
  "bind_r r f = (case r of Inl e \<Rightarrow> Inl e | Inr v \<Rightarrow> f v)"

subsection \<open>Text normalisation (preprocessing.py)\<close>

text \<open>
  Texts are ASCII strings. \<open>is_space\<close> is the set of ASCII characters that Python's
  \<^verbatim>\<open>\s\<close> and \<^verbatim>\<open>str.split()\<close> treat as whitespace; \<open>is_word_char\<close> is \<^verbatim>\<open>\w\<close>.
\<close>

definition is_lower_az :: "char \<Rightarrow> bool" where
  "is_lower_az c \<longleftrightarrow> 97 \<le> (of_char c :: nat) \<and> (of_char c :: nat) \<le> 122"

definition is_upper_az :: "char \<Rightarrow> bool" where
  "is_upper_az c \<longleftrightarrow> 65 \<le> (of_char c :: nat) \<and> (of_char c :: nat) \<le> 90"

definition is_digit :: "char \<Rightarrow> bool" where
  "is_digit c \<longleftrightarrow> 48 \<le> (of_char c :: nat) \<and> (of_char c :: nat) \<le> 57"

definition is_space :: "char \<Rightarrow> bool" where
  "is_space c \<longleftrightarrow> (of_char c :: nat) \<in> {9, 10, 11, 12, 13, 28, 29, 30, 31, 32}"

definition is_word_char :: "char \<Rightarrow> bool" where
  "is_word_char c \<longleftrightarrow> is_lower_az c \<or> is_upper_az c \<or> is_digit c \<or> c = CHR ''_''"

definition lower_char :: "char \<Rightarrow> char" where
  "lower_char c = (if is_upper_az c then char_of ((of_char c :: nat) + 32) else c)"

text \<open>The maximal runs of characters that satisfy \<open>P\<close>, in order.\<close>

fun split_runs :: "(char \<Rightarrow> bool) \<Rightarrow> string \<Rightarrow> string \<Rightarrow> string list" where
  "split_runs P cur [] = (if cur = [] then [] else [cur])"
| "split_runs P cur (c # cs) =
     (if P c then split_runs P (cur @ [c]) cs
      else (if cur = [] then [] else [cur]) @ split_runs P [] cs)"

text \<open>\<^verbatim>\<open>re.sub(r'[^a-z\s]', ' ', text)\<close>\<close>

definition sub_non_letters :: "string \<Rightarrow> string" where
  "sub_non_letters s = map (\<lambda>c. if is_lower_az c \<or> is_space c then c else CHR '' '') s"

text \<open>\<^verbatim>\<open>re.sub(r'\s+', ' ', text)\<close>: the flag says that the previous character was whitespace.\<close>

fun collapse_ws :: "bool \<Rightarrow> string \<Rightarrow> string" where
  "collapse_ws in_ws [] = []"
| "collapse_ws in_ws (c # cs) =
     (if is_space c then (if in_ws then collapse_ws True cs else CHR '' '' # collapse_ws True cs)
      else c # collapse_ws False cs)"

definition strip :: "string \<Rightarrow> string" where
  "strip s = rev (dropWhile is_space (rev (dropWhile is_space s)))"

definition py_split :: "string \<Rightarrow> string list" where
  "py_split s = split_runs (\<lambda>c. \<not> is_space c) [] s"

fun join_sp :: "string list \<Rightarrow> string" where
  "join_sp [] = []"
| "join_sp [w] = w"
| "join_sp (w # ws) = w @ CHR '' '' # join_sp ws"

text \<open>
  \<open>preprocess_text\<close>; the stop word set \<^verbatim>\<open>STOP_WORDS\<close> comes from NLTK's corpus and is a
  parameter here.
\<close>

definition preprocess_text :: "string list \<Rightarrow> string \<Rightarrow> string" where
  "preprocess_text stop_words text =
     (let text1 = map lower_char text;
          text2 = sub_non_letters text1;
          text3 = collapse_ws False text2;
          text4 = strip text3;
          words = py_split text4;
          words' = filter (\<lambda>word. word \<notin> set stop_words) words
      in join_sp words')"

subsection \<open>TF-IDF vectorizer (vectorization.py)\<close>

text \<open>
  The analyzer configured by \<open>create_tfidf_vectorizer\<close>: no lowercasing, unigrams, and the
  token pattern \<^verbatim>\<open>\b[a-z]+\b\<close>, which matches the maximal runs of word characters that
  consist of lower-case letters only. The word characters of the model are the ASCII
  letters, the digits and the underscore; for Python \<^verbatim>\<open>\w\<close> and \<^verbatim>\<open>\b\<close> also count the
  letters and digits of Unicode outside ASCII, so that the model is the analyzer on ASCII
  texts, which is what \<open>preprocess_text\<close> leaves of a text.
\<close>

definition tokenize :: "string \<Rightarrow> string list" where
  "tokenize text = filter (list_all is_lower_az) (split_runs is_word_char [] text)"

text \<open>
  A fitted vectorizer: the vocabulary (term, column) and the inverse document frequency
  of each column. A sparse matrix has a number of columns and one list of
  (column, value) entries for each row.
\<close>

record tfidf_vectorizer =
  vocabulary :: "(string \<times> nat) list"
  idf :: "real list"

type_synonym sparse_row = "(nat \<times> real) list"

record csr_matrix =
  ncols :: nat
  srows :: "sparse_row list"

text \<open>\<^verbatim>\<open>feature_counter[feature_idx] += 1\<close>\<close>

fun count_add :: "nat \<Rightarrow> (nat \<times> nat) list \<Rightarrow> (nat \<times> nat) list" where
  "count_add j [] = [(j, 1)]"
| "count_add j ((i, c) # rest) = (if i = j then (i, c + 1) # rest else (i, c) # count_add j rest)"

text \<open>
  Counting against a fixed vocabulary: a token that is not a key of the vocabulary
  raises \<^verbatim>\<open>KeyError\<close> inside scikit-learn, which catches it and goes on to the next token.
\<close>

fun count_tokens :: "(string \<times> nat) list \<Rightarrow> string list \<Rightarrow> (nat \<times> nat) list \<Rightarrow> (nat \<times> nat) list" where
  "count_tokens V [] acc = acc"
| "count_tokens V (t # ts) acc =
     (case map_of V t of
        None \<Rightarrow> count_tokens V ts acc
      | Some j \<Rightarrow> count_tokens V ts (count_add j acc))"

definition l2_norm_sparse :: "sparse_row \<Rightarrow> real" where
  "l2_norm_sparse row = sqrt (sum_list (map (\<lambda>(j, v). v * v) row))"

text \<open>Rows of norm zero are left as they are by the normaliser.\<close>

definition normalize_sparse :: "sparse_row \<Rightarrow> sparse_row" where
  "normalize_sparse row =
     (let n = l2_norm_sparse row in if n = 0 then row else map (\<lambda>(j, v). (j, v / n)) row)"

definition tfidf_row :: "tfidf_vectorizer \<Rightarrow> string \<Rightarrow> sparse_row" where
  "tfidf_row vec text =
     (let counts = count_tokens (vocabulary vec) (tokenize text) [];
          weighted = map (\<lambda>(j, c). (j, real c * (idf vec ! j))) counts
      in normalize_sparse weighted)"

text \<open>\<^verbatim>\<open>vectorizer.transform(texts)\<close>\<close>

definition transform :: "tfidf_vectorizer \<Rightarrow> string list \<Rightarrow> csr_matrix" where
  "transform vec texts = \<lparr>ncols = length (vocabulary vec), srows = map (tfidf_row vec) texts\<rparr>"

subsection \<open>Latent projection of a query (lsi.py)\<close>

text \<open>
  A dense array carries its second dimension, so that an array without rows still has a
  shape. A fitted \<^verbatim>\<open>TruncatedSVD\<close> holds the basis \<^verbatim>\<open>components_\<close> (one row for each
  component) and the number of columns it was fitted on.
\<close>

record ndarray =
  shape1 :: nat
  rws :: "real list list"

record lsi_model =
  components :: "real list list"
  n_features_in :: nat

definition sparse_dot :: "sparse_row \<Rightarrow> real list \<Rightarrow> real" where
  "sparse_dot row basis_row = sum_list (map (\<lambda>(j, v). v * (basis_row ! j)) row)"

text \<open>\<^verbatim>\<open>lsi_model.transform(X)\<close> is \<^verbatim>\<open>X @ components_.T\<close> after a check of the width of \<open>X\<close>.\<close>

definition lsi_transform :: "lsi_model \<Rightarrow> csr_matrix \<Rightarrow> py_error + ndarray" where
  "lsi_transform m X =
     (if ncols X \<noteq> n_features_in m then Inl (ValueError ''n_features'')
      else Inr \<lparr>shape1 = length (components m),
                rws = map (\<lambda>row. map (sparse_dot row) (components m)) (srows X)\<rparr>)"

subsection \<open>Cosine similarity and ranking (similarity.py)\<close>

definition dot :: "real list \<Rightarrow> real list \<Rightarrow> real" where
  "dot x y = sum_list (map2 (*) x y)"

definition normalize_l2 :: "real list \<Rightarrow> real list" where
  "normalize_l2 x = (let n = sqrt (dot x x) in if n = 0 then x else map (\<lambda>v. v / n) x)"

text \<open>
  \<^verbatim>\<open>sklearn.metrics.pairwise.cosine_similarity\<close>: both arguments need a sample and a
  feature, and the same number of features; the result is the product of the
  row-normalised arguments.
\<close>

definition cosine_similarity :: "ndarray \<Rightarrow> ndarray \<Rightarrow> py_error + real list list" where
  "cosine_similarity X Y =
     (if rws X = [] \<or> shape1 X = 0 then Inl (ValueError ''X'')
      else if rws Y = [] \<or> shape1 Y = 0 then Inl (ValueError ''Y'')
      else if shape1 X \<noteq> shape1 Y then Inl (ValueError ''dimension'')
      else Inr (map (\<lambda>x. map (\<lambda>y. dot (normalize_l2 x) (normalize_l2 y)) (rws Y)) (rws X)))"

text \<open>
  \<^verbatim>\<open>np.argsort\<close>: the indices that sort the array in ascending order. The default sort of
  NumPy is not stable: it promises no order among equal values, and on long arrays it does
  not keep them in the order of their indices. The model is the insertion sort that NumPy
  applies to arrays of fewer than 16 elements, which does keep them in that order. What is
  proved of the ranking for every array therefore uses only that the result is a
  permutation of the indices that sorts the values; the order among equal values is read
  off the model in the examples only, which have three elements.
\<close>

definition np_argsort :: "'a::linorder list \<Rightarrow> nat list" where
  "np_argsort a = sort_key (\<lambda>i. a ! i) [0..<length a]"

text \<open>The slice \<^verbatim>\<open>xs[:k]\<close>; a negative \<open>k\<close> counts from the end.\<close>

definition slice_to :: "int \<Rightarrow> 'a list \<Rightarrow> 'a list" where
  "slice_to k xs = (if 0 \<le> k then take (nat k) xs else take (length xs - nat (- k)) xs)"

subsection \<open>DataFrames\<close>

datatype cell = Str string | Num int | NaN

record dataframe =
  nrows :: nat
  cols :: "(string \<times> cell list) list"

definition has_column :: "dataframe \<Rightarrow> string \<Rightarrow> bool" where
  "has_column df c \<longleftrightarrow> c \<in> set (map fst (cols df))"

text \<open>\<^verbatim>\<open>df.iloc[idx][c]\<close> for \<open>idx \<ge> 0\<close>\<close>

definition iloc_get :: "dataframe \<Rightarrow> nat \<Rightarrow> string \<Rightarrow> py_error + cell" where
  "iloc_get df idx c =
     (if nrows df \<le> idx then Inl IndexError
      else case map_of (cols df) c of
             None \<Rightarrow> Inl (KeyError c)
           | Some cells \<Rightarrow> Inr (cells ! idx))"

fun str_of_nat :: "nat \<Rightarrow> string" where
  "str_of_nat n =
     (if n < 10 then [char_of (48 + n)] else str_of_nat (n div 10) @ [char_of (48 + n mod 10)])"

text \<open>
  \<^verbatim>\<open>str\<close> of a cell. The cells are strings, integers and the missing value; pandas turns a
  column of integers with a missing value into floats, which \<^verbatim>\<open>str\<close> prints with a decimal
  point. Such columns are outside the model.
\<close>

definition py_str :: "cell \<Rightarrow> string" where
  "py_str c = (case c of
      Str s \<Rightarrow> s
    | Num i \<Rightarrow> (if i < 0 then CHR ''-'' # str_of_nat (nat (- i)) else str_of_nat (nat i))
    | NaN \<Rightarrow> ''nan'')"

definition notna :: "cell \<Rightarrow> bool" where
  "notna c \<longleftrightarrow> c \<noteq> NaN"

subsection \<open>find_similar_incidents\<close>

record result =
  index :: nat
  similarity :: real
  combined_text :: cell
  complaint_type :: cell
  descriptor :: cell
  optional :: "(string \<times> string) list"

text \<open>The key that is added to a result when the DataFrame has the column.\<close>

definition plain_field :: "dataframe \<Rightarrow> nat \<Rightarrow> string \<Rightarrow> string \<Rightarrow> py_error + (string \<times> string) list" where
  "plain_field df idx c key =
     (if has_column df c then bind_r (iloc_get df idx c) (\<lambda>v. Inr [(key, py_str v)]) else Inr [])"

definition location_field :: "dataframe \<Rightarrow> nat \<Rightarrow> string \<Rightarrow> string \<Rightarrow> py_error + (string \<times> string) list" where
  "location_field df idx c key =
     (if has_column df c
      then bind_r (iloc_get df idx c) (\<lambda>v. Inr [(key, if notna v then py_str v else [])])
      else Inr [])"

definition build_result :: "dataframe \<Rightarrow> real list \<Rightarrow> nat \<Rightarrow> py_error + result" where
  "build_result df similarities idx =
     bind_r (iloc_get df idx ''combined_text'') (\<lambda>ct.
     bind_r (iloc_get df idx ''Complaint Type'') (\<lambda>cty.
     bind_r (iloc_get df idx ''Descriptor'') (\<lambda>de.
     bind_r (plain_field df idx ''Unique Key'' ''unique_key'') (\<lambda>f1.
     bind_r (plain_field df idx ''Created Date'' ''created_date'') (\<lambda>f2.
     bind_r (location_field df idx ''Incident Address'' ''incident_address'') (\<lambda>f3.
     bind_r (location_field df idx ''Street Name'' ''street_name'') (\<lambda>f4.
     bind_r (location_field df idx ''Incident Zip'' ''incident_zip'') (\<lambda>f5.
     bind_r (location_field df idx ''Borough'' ''borough'') (\<lambda>f6.
     bind_r (location_field df idx ''City'' ''city'') (\<lambda>f7.
       Inr \<lparr>index = idx, similarity = similarities ! idx, combined_text = ct,
            complaint_type = cty, descriptor = de,
            optional = f1 @ f2 @ f3 @ f4 @ f5 @ f6 @ f7\<rparr>))))))))))"

text \<open>The loop over \<open>top_indices\<close>: the first exception ends it.\<close>

fun build_results :: "dataframe \<Rightarrow> real list \<Rightarrow> nat list \<Rightarrow> py_error + result list" where
  "build_results df similarities [] = Inr []"
| "build_results df similarities (idx # rest) =
     bind_r (build_result df similarities idx) (\<lambda>r.
     bind_r (build_results df similarities rest) (\<lambda>rs. Inr (r # rs)))"

text \<open>Lines 33 to 43: the similarities of the query with every stored row.\<close>

definition query_similarities ::
  "string list \<Rightarrow> string \<Rightarrow> tfidf_vectorizer \<Rightarrow> lsi_model \<Rightarrow> ndarray \<Rightarrow> py_error + real list" where
  "query_similarities stop_words query_text vec lsi lsi_vectors =
     (let preprocessed_query = preprocess_text stop_words query_text;
          query_tfidf = transform vec [preprocessed_query]
      in bind_r (lsi_transform lsi query_tfidf) (\<lambda>query_lsi.
         bind_r (cosine_similarity query_lsi lsi_vectors) (\<lambda>S.
           case S of [] \<Rightarrow> Inl IndexError | similarities # _ \<Rightarrow> Inr similarities)))"

definition find_similar_incidents ::
  "string list \<Rightarrow> string \<Rightarrow> tfidf_vectorizer \<Rightarrow> lsi_model \<Rightarrow> ndarray \<Rightarrow> dataframe \<Rightarrow> int
     \<Rightarrow> py_error + result list" where
  "find_similar_incidents stop_words query_text vec lsi lsi_vectors df top_k =
     bind_r (query_similarities stop_words query_text vec lsi lsi_vectors) (\<lambda>similarities.
       let top_indices = slice_to top_k (rev (np_argsort similarities))
       in build_results df similarities top_indices)"


subsection \<open>Fitting the vectorizer (vectorization.py)\<close>

text \<open>
  \<^verbatim>\<open>TfidfVectorizer(max_features, min_df, lowercase=False, token_pattern, ngram_range=(1, 1))\<close>
  and its \<^verbatim>\<open>fit_transform\<close>. The terms are collected in the order in which they are first
  seen, sorted, and pruned by document frequency (\<^verbatim>\<open>max_df\<close> is the default \<open>1.0\<close>, that is
  the number of documents) and then by \<^verbatim>\<open>max_features\<close>, most frequent terms first. An
  empty vocabulary, before or after pruning, raises \<^verbatim>\<open>ValueError\<close>.
\<close>

definition first_seen :: "string list \<Rightarrow> string list" where
  "first_seen ts = fold (\<lambda>t V. if t \<in> set V then V else V @ [t]) ts []"

definition doc_freq :: "string list list \<Rightarrow> string \<Rightarrow> nat" where
  "doc_freq docs t = length (filter (\<lambda>d. t \<in> set d) docs)"

definition term_freq :: "string list list \<Rightarrow> string \<Rightarrow> nat" where
  "term_freq docs t = sum_list (map (\<lambda>d. count_list d t) docs)"

definition limit_features :: "string list list \<Rightarrow> nat \<Rightarrow> nat \<Rightarrow> nat \<Rightarrow> string list \<Rightarrow> string list" where
  "limit_features docs high low limit terms =
     (let masked = filter (\<lambda>t. doc_freq docs t \<le> high \<and> low \<le> doc_freq docs t) terms
      in if limit < length masked
         then let mask_inds = take limit (np_argsort (map (\<lambda>t. - int (term_freq docs t)) masked))
              in map (\<lambda>i. masked ! i) (sort mask_inds)
         else masked)"

text \<open>The counting part of the fit: the terms that are kept, in the order of their columns.\<close>

definition fit_vocabulary :: "nat \<Rightarrow> nat \<Rightarrow> string list \<Rightarrow> py_error + string list" where
  "fit_vocabulary max_features min_df texts =
     (let docs = map tokenize texts;
          raw = first_seen (concat docs);
          n_doc = length texts
      in if max_features < 1 \<or> min_df < 1 then Inl (ValueError ''invalid parameter'')
         else if raw = [] then Inl (ValueError ''empty vocabulary'')
         else if n_doc < min_df then Inl (ValueError ''max_df < min_df'')
         else let kept = limit_features docs n_doc min_df max_features (sort raw)
              in if kept = [] then Inl (ValueError ''no terms remain'') else Inr kept)"

text \<open>The smoothed inverse document frequencies \<^verbatim>\<open>ln((1 + n) / (1 + df)) + 1\<close>.\<close>

definition idf_weights :: "string list list \<Rightarrow> string list \<Rightarrow> real list" where
  "idf_weights docs kept =
     map (\<lambda>t. ln ((1 + real (length docs)) / (1 + real (doc_freq docs t))) + 1) kept"

definition fit_vectorizer :: "nat \<Rightarrow> nat \<Rightarrow> string list \<Rightarrow> py_error + tfidf_vectorizer" where
  "fit_vectorizer max_features min_df texts =
     bind_r (fit_vocabulary max_features min_df texts) (\<lambda>kept.
       Inr \<lparr>vocabulary = zip kept [0..<length kept],
            idf = idf_weights (map tokenize texts) kept\<rparr>)"

text \<open>
  \<open>vectorize_texts\<close>: without a vectorizer a new one is fitted on the texts, and the matrix
  of the training texts is their transform under the fitted vocabulary and weights. With a
  fitted vectorizer the texts are transformed; scikit-learn refuses a matrix without rows,
  so that an empty list of texts raises \<^verbatim>\<open>ValueError\<close>.
\<close>

definition vectorize_texts ::
  "string list \<Rightarrow> tfidf_vectorizer option \<Rightarrow> nat \<Rightarrow> nat \<Rightarrow> py_error + csr_matrix \<times> tfidf_vectorizer" where
  "vectorize_texts texts vectorizer max_features min_df =
     (case vectorizer of
        None \<Rightarrow> bind_r (fit_vectorizer max_features min_df texts)
                  (\<lambda>vec. Inr (transform vec texts, vec))
      | Some vec \<Rightarrow>
          if texts = [] then Inl (ValueError ''0 samples'') else Inr (transform vec texts, vec))"

text \<open>The column indices that occur in a sparse matrix.\<close>

definition column_indices :: "csr_matrix \<Rightarrow> nat set" where
  "column_indices X = (\<Union>row\<in>set (srows X). fst ` set row)"


subsection \<open>Column assignment and row selection of DataFrames\<close>

fun assign_col :: "string \<Rightarrow> cell list \<Rightarrow> (string \<times> cell list) list \<Rightarrow> (string \<times> cell list) list" where
  "assign_col c v [] = [(c, v)]"
| "assign_col c v ((c', v') # rest) =
     (if c' = c then (c, v) # rest else (c', v') # assign_col c v rest)"

text \<open>\<^verbatim>\<open>df[c] = values\<close>: the values must be as many as the rows.\<close>

definition set_column :: "dataframe \<Rightarrow> string \<Rightarrow> cell list \<Rightarrow> py_error + dataframe" where
  "set_column df c v =
     (if length v \<noteq> nrows df then Inl (ValueError ''length'')
      else Inr (df\<lparr>cols := assign_col c v (cols df)\<rparr>))"

text \<open>\<^verbatim>\<open>df[mask]\<close> with a Boolean mask, and \<^verbatim>\<open>df.head(n)\<close>.\<close>

definition select_mask :: "bool list \<Rightarrow> 'a list \<Rightarrow> 'a list" where
  "select_mask bs xs = map snd (filter fst (zip bs xs))"

definition select_rows :: "bool list \<Rightarrow> dataframe \<Rightarrow> dataframe" where
  "select_rows bs df =
     \<lparr>nrows = length (select_mask bs [0..<nrows df]),
      cols = map (\<lambda>(c, cells). (c, select_mask bs cells)) (cols df)\<rparr>"

definition head :: "int \<Rightarrow> dataframe \<Rightarrow> dataframe" where
  "head n df =
     \<lparr>nrows = length (slice_to n [0..<nrows df]),
      cols = map (\<lambda>(c, cells). (c, slice_to n cells)) (cols df)\<rparr>"

text \<open>\<^verbatim>\<open>df[columns].to_dict('records')\<close>: one dictionary for each row.\<close>

fun select_columns :: "dataframe \<Rightarrow> string list \<Rightarrow> py_error + (string \<times> cell list) list" where
  "select_columns df [] = Inr []"
| "select_columns df (c # cs) =
     (case map_of (cols df) c of
        None \<Rightarrow> Inl (KeyError c)
      | Some cells \<Rightarrow> bind_r (select_columns df cs) (\<lambda>rest. Inr ((c, cells) # rest)))"

definition to_records :: "dataframe \<Rightarrow> string list \<Rightarrow> py_error + (string \<times> cell) list list" where
  "to_records df cs =
     bind_r (select_columns df cs) (\<lambda>sel.
       Inr (map (\<lambda>i. map (\<lambda>(c, cells). (c, cells ! i)) sel) [0..<nrows df]))"

subsection \<open>Cluster analysis (clustering.py)\<close>

record cluster_info =
  cluster_size :: nat
  examples :: "(string \<times> cell) list list"
  top_terms_list :: "(string \<times> real) list"

text \<open>\<^verbatim>\<open>len(np.unique(cluster_labels))\<close>\<close>

definition n_unique :: "int list \<Rightarrow> nat" where
  "n_unique labels = length (remdups labels)"

text \<open>\<^verbatim>\<open>get_feature_names_out()\<close>: the terms in the order of their columns.\<close>

definition feature_names :: "tfidf_vectorizer \<Rightarrow> string list" where
  "feature_names vec = map fst (sort_key snd (vocabulary vec))"

definition entry :: "sparse_row \<Rightarrow> nat \<Rightarrow> real" where
  "entry row j = sum_list (map snd (filter (\<lambda>(c, v). c = j) row))"

text \<open>
  \<^verbatim>\<open>cluster_tfidf.mean(axis=0)\<close>: SciPy multiplies by \<^verbatim>\<open>1.0 / shape[0]\<close>, which raises
  \<^verbatim>\<open>ZeroDivisionError\<close> on a matrix without rows.
\<close>

definition mean_axis0 :: "nat \<Rightarrow> sparse_row list \<Rightarrow> py_error + real list" where
  "mean_axis0 n_cols rows =
     (if rows = [] then Inl ZeroDivisionError
      else Inr (map (\<lambda>j. sum_list (map (\<lambda>row. entry row j) rows) / real (length rows))
                  [0..<n_cols]))"

fun named_scores :: "string list \<Rightarrow> real list \<Rightarrow> nat list \<Rightarrow> py_error + (string \<times> real) list" where
  "named_scores names scores [] = Inr []"
| "named_scores names scores (idx # rest) =
     (if length names \<le> idx then Inl IndexError
      else bind_r (named_scores names scores rest) (\<lambda>r. Inr ((names ! idx, scores ! idx) # r)))"

definition get_cluster_top_terms ::
  "csr_matrix \<Rightarrow> int list \<Rightarrow> tfidf_vectorizer \<Rightarrow> int \<Rightarrow> int \<Rightarrow> py_error + (string \<times> real) list" where
  "get_cluster_top_terms tfidf_matrix cluster_labels vec cluster_id top_terms =
     (let cluster_mask = map (\<lambda>l. l = cluster_id) cluster_labels
      in if length cluster_mask \<noteq> length (srows tfidf_matrix) then Inl IndexError
         else let cluster_tfidf = select_mask cluster_mask (srows tfidf_matrix)
              in bind_r (mean_axis0 (ncols tfidf_matrix) cluster_tfidf) (\<lambda>mean_scores.
                   let top_indices = slice_to top_terms (rev (np_argsort mean_scores))
                   in named_scores (feature_names vec) mean_scores top_indices))"

text \<open>One turn of the loop of \<open>analyze_clusters\<close>, on the copy that has the cluster column.\<close>

definition analyze_cluster ::
  "dataframe \<Rightarrow> int list \<Rightarrow> csr_matrix \<Rightarrow> tfidf_vectorizer \<Rightarrow> int \<Rightarrow> int \<Rightarrow> nat
     \<Rightarrow> py_error + cluster_info" where
  "analyze_cluster df cluster_labels tfidf_matrix vec top_terms examples_per_cluster cluster_id =
     (case map_of (cols df) ''cluster'' of
        None \<Rightarrow> Inl (KeyError ''cluster'')
      | Some cl \<Rightarrow>
          let cluster_data = select_rows (map (\<lambda>c. c = Num (int cluster_id)) cl) df;
              exs = head examples_per_cluster cluster_data
          in if 0 < nrows exs \<and> \<not> has_column exs ''combined_text''
             then Inl (KeyError ''combined_text'')
             else bind_r (get_cluster_top_terms tfidf_matrix cluster_labels vec
                            (int cluster_id) top_terms) (\<lambda>top_terms_list.
                  bind_r (to_records exs [''combined_text'', ''Complaint Type'', ''Descriptor''])
                    (\<lambda>recs.
                      Inr \<lparr>cluster_size = nrows cluster_data, examples = recs,
                           top_terms_list = top_terms_list\<rparr>)))"

fun analyze_loop ::
  "dataframe \<Rightarrow> int list \<Rightarrow> csr_matrix \<Rightarrow> tfidf_vectorizer \<Rightarrow> int \<Rightarrow> int \<Rightarrow> nat list
     \<Rightarrow> py_error + (nat \<times> cluster_info) list" where
  "analyze_loop df labels X vec tt ex [] = Inr []"
| "analyze_loop df labels X vec tt ex (cluster_id # rest) =
     bind_r (analyze_cluster df labels X vec tt ex cluster_id) (\<lambda>info.
     bind_r (analyze_loop df labels X vec tt ex rest) (\<lambda>r. Inr ((cluster_id, info) # r)))"

text \<open>
  The arguments of \<open>analyze_clusters\<close> are references to objects of the caller. The store
  is the list of the objects, an address is a position in it, and a new object goes to
  the end. \<^verbatim>\<open>df.copy()\<close> allocates, and \<^verbatim>\<open>df['cluster'] = cluster_labels\<close> writes in place to
  the object the local name \<open>df\<close> refers to; the selections, \<open>head\<close>, the means and the
  sorting build temporaries and write to no object of the store.
\<close>

datatype obj =
    DF dataframe
  | Labels "int list"
  | Matrix csr_matrix
  | Vectorizer tfidf_vectorizer

type_synonym store = "obj list"

definition store_get :: "store \<Rightarrow> nat \<Rightarrow> obj option" where
  "store_get st a = (if a < length st then Some (st ! a) else None)"

definition alloc :: "store \<Rightarrow> obj \<Rightarrow> nat \<times> store" where
  "alloc st v = (length st, st @ [v])"

definition analyze_clusters ::
  "store \<Rightarrow> nat \<Rightarrow> nat \<Rightarrow> nat \<Rightarrow> nat \<Rightarrow> int \<Rightarrow> int
     \<Rightarrow> store \<times> (py_error + (nat \<times> cluster_info) list)" where
  "analyze_clusters st df cluster_labels tfidf_matrix tfidf_vectorizer top_terms examples_per_cluster =
     (case (store_get st df, store_get st cluster_labels, store_get st tfidf_matrix,
            store_get st tfidf_vectorizer) of
        (Some (DF d), Some (Labels l), Some (Matrix X), Some (Vectorizer v)) \<Rightarrow>
          (let (df', st1) = alloc st (DF d)
           in case set_column d ''cluster'' (map Num l) of
                Inl e \<Rightarrow> (st1, Inl e)
              | Inr d' \<Rightarrow>
                  (let st2 = st1[df' := DF d'];
                       n_clusters = n_unique l
                   in case store_get st2 df' of
                        Some (DF dc) \<Rightarrow>
                          (st2, analyze_loop dc l X v top_terms examples_per_cluster [0..<n_clusters])
                      | _ \<Rightarrow> (st2, Inl TypeError)))
      | _ \<Rightarrow> (st, Inl TypeError))"


subsection \<open>The pipeline (lsi.py, clustering.py, main.py)\<close>

text \<open>
  The numerical routines of scikit-learn that the pipeline fits, the plotting and the
  report writer are collaborators: functions that return a result or raise. \<open>svd_fit_transform\<close>
  is \<^verbatim>\<open>TruncatedSVD(n_components, random_state, algorithm='randomized', n_iter=5).fit_transform\<close>,
  \<open>kmeans_fit_predict\<close> is \<^verbatim>\<open>KMeans(n_clusters, random_state, n_init=10, max_iter=300).fit_predict\<close>
  with the fitted centroids.
\<close>

record env =
  stop_words :: "string list"
  svd_fit_transform :: "int \<Rightarrow> int \<Rightarrow> csr_matrix \<Rightarrow> py_error + ndarray \<times> lsi_model"
  kmeans_fit_predict :: "int \<Rightarrow> int \<Rightarrow> ndarray \<Rightarrow> py_error + int list \<times> real list list"
  visualization :: "ndarray \<Rightarrow> int list \<Rightarrow> int \<Rightarrow> py_error option"
  generate_html_report ::
    "(nat \<times> cluster_info) list \<Rightarrow> dataframe \<Rightarrow> int list \<Rightarrow> (string \<times> result list) list
       \<Rightarrow> py_error option"

definition actual_n_components :: "csr_matrix \<Rightarrow> int \<Rightarrow> int" where
  "actual_n_components tfidf_matrix n_components = min n_components (int (ncols tfidf_matrix) - 1)"

definition apply_lsi :: "env \<Rightarrow> csr_matrix \<Rightarrow> int \<Rightarrow> int \<Rightarrow> py_error + ndarray \<times> lsi_model" where
  "apply_lsi e tfidf_matrix n_components random_state =
     svd_fit_transform e (actual_n_components tfidf_matrix n_components) random_state tfidf_matrix"

definition apply_kmeans :: "env \<Rightarrow> ndarray \<Rightarrow> int \<Rightarrow> int \<Rightarrow> py_error + int list \<times> real list list" where
  "apply_kmeans e lsi_vectors n_clusters random_state =
     kmeans_fit_predict e n_clusters random_state lsi_vectors"

text \<open>\<open>preprocess_dataframe\<close>: a copy with the new column \<^verbatim>\<open>preprocessed_text\<close>.\<close>

definition preprocess_dataframe :: "string list \<Rightarrow> dataframe \<Rightarrow> py_error + dataframe" where
  "preprocess_dataframe sw df =
     (case map_of (cols df) ''combined_text'' of
        None \<Rightarrow> Inl (KeyError ''combined_text'')
      | Some cells \<Rightarrow>
          set_column df ''preprocessed_text'' (map (\<lambda>c. Str (preprocess_text sw (py_str c))) cells))"

text \<open>The texts of a column, as the vectorizer reads them: a cell that is no string raises.\<close>

fun cell_texts :: "cell list \<Rightarrow> py_error + string list" where
  "cell_texts [] = Inr []"
| "cell_texts (Str s # rest) = bind_r (cell_texts rest) (\<lambda>r. Inr (s # r))"
| "cell_texts (_ # rest) = Inl TypeError"

definition text_column :: "dataframe \<Rightarrow> string \<Rightarrow> py_error + string list" where
  "text_column df c =
     (case map_of (cols df) c of None \<Rightarrow> Inl (KeyError c) | Some cells \<Rightarrow> cell_texts cells)"

text \<open>The call of \<open>analyze_clusters\<close> from \<open>main\<close>, on a store that holds the four arguments.\<close>

definition analyze_clusters_call ::
  "dataframe \<Rightarrow> int list \<Rightarrow> csr_matrix \<Rightarrow> tfidf_vectorizer \<Rightarrow> int \<Rightarrow> int
     \<Rightarrow> py_error + (nat \<times> cluster_info) list" where
  "analyze_clusters_call df labels X vec top_terms examples_per_cluster =
     snd (analyze_clusters [DF df, Labels labels, Matrix X, Vectorizer vec] 0 1 2 3
            top_terms examples_per_cluster)"

fun search_examples ::
  "string list \<Rightarrow> tfidf_vectorizer \<Rightarrow> lsi_model \<Rightarrow> ndarray \<Rightarrow> dataframe \<Rightarrow> string list
     \<Rightarrow> py_error + (string \<times> result list) list" where
  "search_examples sw vec lsi lsi_vectors df [] = Inr []"
| "search_examples sw vec lsi lsi_vectors df (query # rest) =
     bind_r (find_similar_incidents sw query vec lsi lsi_vectors df 5) (\<lambda>similar.
     bind_r (search_examples sw vec lsi lsi_vectors df rest) (\<lambda>r. Inr ((query, similar) # r)))"

definition example_queries :: "string list" where
  "example_queries =
     [''Noise - Residential'', ''Illegal Parking - Blocked Driveway'', ''Noise - Street/Sidewalk'']"

record config =
  max_features :: nat
  min_df :: nat
  lsi_components :: int
  n_clusters :: int
  random_state :: int

record dataset_info =
  total_records :: nat
  n_features_tfidf :: nat
  n_components_lsi :: nat
  n_clusters_info :: int
  vocabulary_size :: nat

record metadata =
  md_dataset_info :: dataset_info
  md_configuration :: config

text \<open>Lines 214 to 220 of \<open>main\<close>.\<close>

definition dataset_info_of ::
  "dataframe \<Rightarrow> csr_matrix \<Rightarrow> ndarray \<Rightarrow> int \<Rightarrow> tfidf_vectorizer \<Rightarrow> dataset_info" where
  "dataset_info_of df tfidf_matrix lsi_vectors n_cl vec =
     \<lparr>total_records = nrows df,
      n_features_tfidf = ncols tfidf_matrix,
      n_components_lsi = shape1 lsi_vectors,
      n_clusters_info = n_cl,
      vocabulary_size = length (vocabulary vec)\<rparr>"

text \<open>
  A run of \<open>main\<close> is the list of what it has announced and written, in order, and how it
  ended: \<open>Step n\<close> is the banner of step \<open>n\<close>, \<open>Saved f\<close> a file that was written. \<open>main\<close> has
  one handled failure, the missing CSV file, which it prints before it returns; it has no
  exception handler, so that an exception of a stage leaves \<open>main\<close> as it is.
\<close>

datatype event = Step nat | Saved string

datatype outcome = Completed metadata | Reported string | Unhandled py_error

definition then_run ::
  "event list \<times> (py_error + 'a) \<Rightarrow> ('a \<Rightarrow> event list \<times> (py_error + 'b))
     \<Rightarrow> event list \<times> (py_error + 'b)" where
  "then_run r f =
     (case r of
        (es, Inl e) \<Rightarrow> (es, Inl e)
      | (es, Inr v) \<Rightarrow> (case f v of (es', r') \<Rightarrow> (es @ es', r')))"

definition raised :: "py_error option \<Rightarrow> py_error + unit" where
  "raised r = (case r of None \<Rightarrow> Inr () | Some e \<Rightarrow> Inl e)"

definition default_config :: config where
  "default_config =
     \<lparr>max_features = 5000, min_df = 2, lsi_components = 150, n_clusters = 7, random_state = 42\<rparr>"

text \<open>
  \<open>main\<close> with its constants as a record; the argument is the frame that \<open>load_data\<close>
  returns, or \<open>None\<close> when the CSV file does not exist.
\<close>

definition main_with :: "env \<Rightarrow> config \<Rightarrow> dataframe option \<Rightarrow> event list \<times> outcome" where
  "main_with e cfg csv =
     (case csv of
        None \<Rightarrow> ([Step 1], Reported ''CSV file not found'')
      | Some df0 \<Rightarrow>
          (case
             then_run ([Step 1, Step 2], preprocess_dataframe (stop_words e) df0) (\<lambda>df.
             then_run ([Saved ''processed_data.csv'', Step 3],
                       bind_r (text_column df ''preprocessed_text'') (\<lambda>texts.
                         vectorize_texts texts None (max_features cfg) (min_df cfg)))
               (\<lambda>(tfidf_matrix, vec).
             then_run ([Saved ''tfidf_vectors.npz'', Step 4],
                       apply_lsi e tfidf_matrix (lsi_components cfg) (random_state cfg))
               (\<lambda>(lsi_vectors, lsi).
             then_run ([Saved ''lsi_vectors.npy'', Step 5],
                       apply_kmeans e lsi_vectors (n_clusters cfg) (random_state cfg))
               (\<lambda>(cluster_labels, kmeans_model).
             then_run ([], set_column df ''cluster'' (map Num cluster_labels)) (\<lambda>_.
             then_run ([Saved ''cluster_assignments.csv'', Step 6],
                       analyze_clusters_call df cluster_labels tfidf_matrix vec 10 5)
               (\<lambda>cluster_analysis.
             then_run ([Step 7],
                       raised (visualization e lsi_vectors cluster_labels (random_state cfg)))
               (\<lambda>_.
             then_run ([Step 8],
                       search_examples (stop_words e) vec lsi lsi_vectors df example_queries)
               (\<lambda>similarity_results.
             then_run ([Step 9],
                       raised (generate_html_report e cluster_analysis df cluster_labels
                                 similarity_results))
               (\<lambda>_.
               ([Step 10, Saved ''models'', Step 11, Saved ''metadata.json''],
                Inr \<lparr>md_dataset_info =
                       dataset_info_of df tfidf_matrix lsi_vectors (n_clusters cfg) vec,
                     md_configuration = cfg\<rparr>))))))))))
           of
             (es, Inl ex) \<Rightarrow> (es, Unhandled ex)
           | (es, Inr md) \<Rightarrow> (es, Completed md)))"

definition main :: "env \<Rightarrow> dataframe option \<Rightarrow> event list \<times> outcome" where
  "main e csv = main_with e default_config csv"


subsection \<open>Properties named by the specification\<close>

text \<open>
  A stored bundle as \<open>main\<close> builds it: the projector was fitted on the matrix of the
  vectorizer, there is a latent row for each record of the frame, at least one record and
  one component, and the frame has the three columns every result reads.
\<close>

definition bundle_ok :: "tfidf_vectorizer \<Rightarrow> lsi_model \<Rightarrow> ndarray \<Rightarrow> dataframe \<Rightarrow> bool" where
  "bundle_ok vec lsi lsi_vectors df \<longleftrightarrow>
     n_features_in lsi = length (vocabulary vec) \<and>
     components lsi \<noteq> [] \<and>
     shape1 lsi_vectors = length (components lsi) \<and>
     rws lsi_vectors \<noteq> [] \<and>
     nrows df = length (rws lsi_vectors) \<and>
     has_column df ''combined_text'' \<and>
     has_column df ''Complaint Type'' \<and>
     has_column df ''Descriptor''"



text \<open>
  The arguments of the cluster analysis as \<open>main\<close> passes them: a label and a row of the
  TF-IDF matrix for each record, and the matrix of the vectorizer.
\<close>

definition cluster_inputs_ok :: "dataframe \<Rightarrow> int list \<Rightarrow> csr_matrix \<Rightarrow> tfidf_vectorizer \<Rightarrow> bool" where
  "cluster_inputs_ok df labels X vec \<longleftrightarrow>
     length labels = nrows df \<and>
     length (srows X) = nrows df \<and>
     ncols X = length (vocabulary vec) \<and>
     has_column df ''combined_text'' \<and>
     has_column df ''Complaint Type'' \<and>
     has_column df ''Descriptor''"

subsection \<open>A small corpus\<close>

text \<open>
  Three records, two of them with the same text, a vocabulary of three terms and a
  projector that keeps the first two columns.
\<close>

definition ex_vec :: tfidf_vectorizer where
  "ex_vec = \<lparr>vocabulary = [(''noise'', 0), (''parking'', 1), (''street'', 2)], idf = [1, 1, 1]\<rparr>"

definition ex_lsi :: lsi_model where
  "ex_lsi = \<lparr>components = [[1, 0, 0], [0, 1, 0]], n_features_in = 3\<rparr>"

definition ex_vectors :: ndarray where
  "ex_vectors = \<lparr>shape1 = 2, rws = [[1, 0], [1, 0], [0, 1]]\<rparr>"

definition ex_df :: dataframe where
  "ex_df = \<lparr>nrows = 3, cols =
     [(''Complaint Type'', [Str ''Noise'', Str ''Noise'', Str ''Parking'']),
      (''Descriptor'', [Str ''Loud'', Str ''Loud'', Str ''Blocked'']),
      (''Borough'', [Str ''QUEENS'', NaN, Str ''BRONX'']),
      (''combined_text'', [Str ''Noise - Loud'', Str ''Noise - Loud'', Str ''Parking - Blocked''])]\<rparr>"


text \<open>What a query without a known term gets from the small corpus, for \<open>top_k = 5\<close>.\<close>

definition ex_zero_results :: "result list" where
  "ex_zero_results =
     [\<lparr>index = 2, similarity = 0, combined_text = Str ''Parking - Blocked'',
       complaint_type = Str ''Parking'', descriptor = Str ''Blocked'',
       optional = [(''borough'', ''BRONX'')]\<rparr>,
      \<lparr>index = 1, similarity = 0, combined_text = Str ''Noise - Loud'',
       complaint_type = Str ''Noise'', descriptor = Str ''Loud'', optional = [(''borough'', [])]\<rparr>,
      \<lparr>index = 0, similarity = 0, combined_text = Str ''Noise - Loud'',
       complaint_type = Str ''Noise'', descriptor = Str ''Loud'',
       optional = [(''borough'', ''QUEENS'')]\<rparr>]"

definition ex_matrix :: csr_matrix where
  "ex_matrix = \<lparr>ncols = 3, srows = [[(0, 1)], [(0, 1)], [(1, 1)]]\<rparr>"

text \<open>
  Two outcomes of a clustering that was asked for three clusters: in the first no record
  has the label 2, in the second no record has the label 1.
\<close>

definition ex_store :: store where
  "ex_store = [DF ex_df, Labels [0, 0, 1], Matrix ex_matrix, Vectorizer ex_vec]"

definition ex_store_gap :: store where
  "ex_store_gap = [DF ex_df, Labels [0, 2, 2], Matrix ex_matrix, Vectorizer ex_vec]"

definition ex_df_clustered :: "int list \<Rightarrow> dataframe" where
  "ex_df_clustered labels = \<lparr>nrows = 3, cols =
     [(''Complaint Type'', [Str ''Noise'', Str ''Noise'', Str ''Parking'']),
      (''Descriptor'', [Str ''Loud'', Str ''Loud'', Str ''Blocked'']),
      (''Borough'', [Str ''QUEENS'', NaN, Str ''BRONX'']),
      (''combined_text'', [Str ''Noise - Loud'', Str ''Noise - Loud'', Str ''Parking - Blocked'']),
      (''cluster'', map Num labels)]\<rparr>"

definition ex_report :: "(nat \<times> cluster_info) list" where
  "ex_report =
     [(0, \<lparr>cluster_size = 2,
           examples =
             [[(''combined_text'', Str ''Noise - Loud''), (''Complaint Type'', Str ''Noise''),
               (''Descriptor'', Str ''Loud'')],
              [(''combined_text'', Str ''Noise - Loud''), (''Complaint Type'', Str ''Noise''),
               (''Descriptor'', Str ''Loud'')]],
           top_terms_list = [(''noise'', 1), (''street'', 0), (''parking'', 0)]\<rparr>),
      (1, \<lparr>cluster_size = 1,
           examples =
             [[(''combined_text'', Str ''Parking - Blocked''), (''Complaint Type'', Str ''Parking''),
               (''Descriptor'', Str ''Blocked'')]],
           top_terms_list = [(''parking'', 1), (''street'', 0), (''noise'', 0)]\<rparr>)]"

text \<open>
  Collaborators for the examples, with the shapes and the refusals of the routines they
  stand for. The factorisation wants at least one component, no more components than
  columns and at least one row; the array it returns has \<open>min(n_components, n_samples)\<close>
  columns, which are here the first columns of the matrix. The clustering wants at least
  one cluster and no fewer records than clusters, and here gives record \<open>i\<close> the label
  \<open>i mod n_clusters\<close>. The plot needs two records for its perplexity
  \<open>min(30, n_samples - 1)\<close>.
\<close>

definition ex_svd :: "int \<Rightarrow> int \<Rightarrow> csr_matrix \<Rightarrow> py_error + ndarray \<times> lsi_model" where
  "ex_svd k seed X =
     (if k < 1 \<or> int (ncols X) < k \<or> srows X = [] then Inl (ValueError ''n_components'')
      else let r = min (nat k) (length (srows X))
           in Inr (\<lparr>shape1 = r, rws = map (\<lambda>row. map (entry row) [0..<r]) (srows X)\<rparr>,
                   \<lparr>components = map (\<lambda>i. map (\<lambda>j. if i = j then 1 else 0) [0..<ncols X]) [0..<r],
                    n_features_in = ncols X\<rparr>))"

definition ex_kmeans :: "int \<Rightarrow> int \<Rightarrow> ndarray \<Rightarrow> py_error + int list \<times> real list list" where
  "ex_kmeans k seed V =
     (if k < 1 \<or> int (length (rws V)) < k then Inl (ValueError ''n_samples'')
      else Inr (map (\<lambda>i. int i mod k) [0..<length (rws V)], []))"

definition ex_env :: env where
  "ex_env =
     \<lparr>stop_words = [''the''],
      svd_fit_transform = ex_svd,
      kmeans_fit_predict = ex_kmeans,
      visualization = (\<lambda>V labels seed. if length (rws V) < 2 then Some (ValueError ''perplexity'') else None),
      generate_html_report = (\<lambda>analysis df labels sims. None)\<rparr>"

text \<open>A frame without records, and one in which no term occurs in two records.\<close>

definition ex_empty_df :: dataframe where
  "ex_empty_df = \<lparr>nrows = 0, cols =
     [(''Complaint Type'', []), (''Descriptor'', []), (''combined_text'', [])]\<rparr>"

definition ex_rare_df :: dataframe where
  "ex_rare_df = \<lparr>nrows = 2, cols =
     [(''Complaint Type'', [Str ''Noise'', Str ''Parking'']),
      (''Descriptor'', [Str ''Loud'', Str ''Blocked'']),
      (''combined_text'', [Str ''Noise - Loud'', Str ''Parking - Blocked''])]\<rparr>"

text \<open>
  Eight records with ten terms, each term in two records or more: the texts that
  \<open>preprocess_dataframe\<close> makes of them, the terms in the order of their columns, the
  vectorizer that is fitted on the texts, the TF-IDF matrix, what \<open>ex_svd\<close> and \<open>ex_kmeans\<close>
  return for it, and the run of \<open>main\<close>: the metadata it saves and the steps it announces.
\<close>

definition ex_wide_df :: dataframe where
  "ex_wide_df = \<lparr>nrows = 8, cols =
     [(''Complaint Type'',
        [Str ''Noise'', Str ''Noise'', Str ''Loud Party'', Str ''Music'', Str ''Blocked Driveway'',
         Str ''Blocked'', Str ''Driveway'', Str ''Illegal'']),
      (''Descriptor'',
        [Str ''Loud Music'', Str ''Party Street'', Str ''Parking'', Str ''Street Parking'',
         Str ''Illegal'', Str ''Car Noise'', Str ''Car Loud'', Str ''Music Car'']),
      (''combined_text'',
        [Str ''Noise - Loud Music'', Str ''Noise - Party Street'', Str ''Loud Party - Parking'',
         Str ''Music - Street Parking'', Str ''Blocked Driveway - Illegal'',
         Str ''Blocked - Car Noise'', Str ''Driveway - Car Loud'', Str ''Illegal - Music Car''])]\<rparr>"

definition ex_wide_texts :: "string list" where
  "ex_wide_texts =
     [''noise loud music'', ''noise party street'', ''loud party parking'',
      ''music street parking'', ''blocked driveway illegal'', ''blocked car noise'',
      ''driveway car loud'', ''illegal music car'']"

definition ex_wide_pre :: dataframe where
  "ex_wide_pre =
     ex_wide_df\<lparr>cols := assign_col ''preprocessed_text'' (map Str ex_wide_texts) (cols ex_wide_df)\<rparr>"

definition ex_wide_terms :: "string list" where
  "ex_wide_terms =
     [''blocked'', ''car'', ''driveway'', ''illegal'', ''loud'', ''music'', ''noise'', ''parking'',
      ''party'', ''street'']"

definition ex_wide_vec :: tfidf_vectorizer where
  "ex_wide_vec =
     \<lparr>vocabulary = zip ex_wide_terms [0..<length ex_wide_terms],
      idf = idf_weights (map tokenize ex_wide_texts) ex_wide_terms\<rparr>"

definition ex_wide_matrix :: csr_matrix where
  "ex_wide_matrix = transform ex_wide_vec ex_wide_texts"

definition ex_wide_vectors :: ndarray where
  "ex_wide_vectors =
     \<lparr>shape1 = 8, rws = map (\<lambda>row. map (entry row) [0..<8]) (srows ex_wide_matrix)\<rparr>"

definition ex_wide_lsi :: lsi_model where
  "ex_wide_lsi =
     \<lparr>components = map (\<lambda>i. map (\<lambda>j. if i = j then 1 else 0) [0..<10]) [0..<8],
      n_features_in = 10\<rparr>"

definition ex_wide_labels :: "int list" where
  "ex_wide_labels = [0, 1, 2, 3, 4, 5, 6, 0]"

definition ex_wide_md :: metadata where
  "ex_wide_md =
     \<lparr>md_dataset_info =
        \<lparr>total_records = 8, n_features_tfidf = 10, n_components_lsi = 8, n_clusters_info = 7,
         vocabulary_size = 10\<rparr>,
      md_configuration = default_config\<rparr>"

definition ex_trace :: "event list" where
  "ex_trace =
     [Step 1, Step 2, Saved ''processed_data.csv'', Step 3, Saved ''tfidf_vectors.npz'', Step 4,
      Saved ''lsi_vectors.npy'', Step 5, Saved ''cluster_assignments.csv'', Step 6, Step 7,
      Step 8, Step 9, Step 10, Saved ''models'', Step 11, Saved ''metadata.json'']"

definition ex_docs :: "string list" where
  "ex_docs = [''noise street'', ''noise loud'', ''parking'', ''noise street'', ''noise loud'', ''parking'']"

definition ex_fitted :: tfidf_vectorizer where
  "ex_fitted =
     \<lparr>vocabulary = [(''loud'', 0), (''noise'', 1), (''parking'', 2), (''street'', 3)],
      idf = idf_weights (map tokenize ex_docs) [''loud'', ''noise'', ''parking'', ''street'']\<rparr>"

section \<open>Properties\<close>

subsection \<open>Results and runs\<close>

lemma bind_r_simps [simp]:
  "bind_r (Inl e) f = Inl e"
  "bind_r (Inr v) f = f v"
  by (simp_all add: bind_r_def)

lemma bind_r_eq_Inr: "bind_r r f = Inr y \<longleftrightarrow> (\<exists>v. r = Inr v \<and> f v = Inr y)"
  by (cases r) simp_all

lemma then_run_simps [simp]:
  "then_run (es, Inl e) f = (es, Inl e)"
  "then_run (es, Inr v) f = (es @ fst (f v), snd (f v))"
  by (simp_all add: then_run_def split: prod.splits)

lemma upt_0_2: "[0..<2] = [0, 1]"
  by (simp add: numeral_2_eq_2)

lemma upt_0_3: "[0..<3] = [0, 1, 2]"
  by (simp add: numeral_3_eq_3 numeral_2_eq_2)

subsection \<open>Argsort and slices\<close>


lemma set_np_argsort [simp]: "set (np_argsort a) = {0..<length a}"
  by (simp add: np_argsort_def)

lemma length_np_argsort [simp]: "length (np_argsort a) = length a"
  by (simp add: np_argsort_def)

lemma distinct_np_argsort [simp]: "distinct (np_argsort a)"
  by (simp add: np_argsort_def)


lemma set_slice_to: "set (slice_to k xs) \<subseteq> set xs"
  by (auto simp: slice_to_def dest: in_set_takeD)

lemma length_slice_to: "length (slice_to k xs) = (if 0 \<le> k then min (nat k) (length xs) else length xs - nat (- k))"
  by (simp add: slice_to_def min.commute)

lemma distinct_slice_to: "distinct xs \<Longrightarrow> distinct (slice_to k xs)"
  by (simp add: slice_to_def)

lemma length_slice_to_nonneg: "0 \<le> k \<Longrightarrow> length (slice_to k xs) = min (nat k) (length xs)"
  by (simp add: slice_to_def)

subsection \<open>Building the results\<close>

lemma build_result_Inr:
  "build_result df s idx = Inr r \<Longrightarrow> index r = idx \<and> similarity r = s ! idx"
  by (auto simp: build_result_def bind_r_eq_Inr)

lemma build_results_Inr:
  "build_results df s idxs = Inr rs \<Longrightarrow>
     map index rs = idxs \<and> map similarity rs = map (\<lambda>i. s ! i) idxs"
proof (induction idxs arbitrary: rs)
  case Nil
  then show ?case by simp
next
  case (Cons i idxs)
  then show ?case by (auto simp: bind_r_eq_Inr dest: build_result_Inr)
qed

lemma find_similar_incidents_Inr:
  assumes "find_similar_incidents sw q vec lsi V df k = Inr rs"
  obtains sims where "query_similarities sw q vec lsi V = Inr sims"
    and "build_results df sims (slice_to k (rev (np_argsort sims))) = Inr rs"
  using assms by (auto simp: find_similar_incidents_def bind_r_eq_Inr)

lemma has_column_map_of:
  "has_column df c \<Longrightarrow> \<exists>cells. map_of (cols df) c = Some cells"
  by (cases "map_of (cols df) c") (auto simp: has_column_def map_of_eq_None_iff)

lemma iloc_get_ok:
  "has_column df c \<Longrightarrow> idx < nrows df \<Longrightarrow> \<exists>v. iloc_get df idx c = Inr v"
  by (auto simp: iloc_get_def dest: has_column_map_of)

lemma plain_field_ok:
  "idx < nrows df \<Longrightarrow> \<exists>fs. plain_field df idx c key = Inr fs"
  using iloc_get_ok [of df c idx] by (auto simp: plain_field_def)

lemma location_field_ok:
  "idx < nrows df \<Longrightarrow> \<exists>fs. location_field df idx c key = Inr fs"
  using iloc_get_ok [of df c idx] by (auto simp: location_field_def)

lemma build_result_ok:
  assumes "has_column df ''combined_text''" "has_column df ''Complaint Type''"
    "has_column df ''Descriptor''" "idx < nrows df"
  shows "\<exists>r. build_result df s idx = Inr r"
proof -
  obtain ct where 1: "iloc_get df idx ''combined_text'' = Inr ct"
    using iloc_get_ok assms by blast
  obtain cty where 2: "iloc_get df idx ''Complaint Type'' = Inr cty"
    using iloc_get_ok assms by blast
  obtain de where 3: "iloc_get df idx ''Descriptor'' = Inr de"
    using iloc_get_ok assms by blast
  obtain f1 where 4: "plain_field df idx ''Unique Key'' ''unique_key'' = Inr f1"
    using plain_field_ok assms(4) by blast
  obtain f2 where 5: "plain_field df idx ''Created Date'' ''created_date'' = Inr f2"
    using plain_field_ok assms(4) by blast
  obtain f3 where 6: "location_field df idx ''Incident Address'' ''incident_address'' = Inr f3"
    using location_field_ok assms(4) by blast
  obtain f4 where 7: "location_field df idx ''Street Name'' ''street_name'' = Inr f4"
    using location_field_ok assms(4) by blast
  obtain f5 where 8: "location_field df idx ''Incident Zip'' ''incident_zip'' = Inr f5"
    using location_field_ok assms(4) by blast
  obtain f6 where 9: "location_field df idx ''Borough'' ''borough'' = Inr f6"
    using location_field_ok assms(4) by blast
  obtain f7 where 10: "location_field df idx ''City'' ''city'' = Inr f7"
    using location_field_ok assms(4) by blast
  show ?thesis
    unfolding build_result_def by (simp only: 1 2 3 4 5 6 7 8 9 10 bind_r_simps) blast
qed

lemma build_results_ok:
  assumes "has_column df ''combined_text''" "has_column df ''Complaint Type''"
    "has_column df ''Descriptor''"
  shows "\<forall>i\<in>set idxs. i < nrows df \<Longrightarrow> \<exists>rs. build_results df s idxs = Inr rs"
proof (induction idxs)
  case Nil
  then show ?case by simp
next
  case (Cons i idxs)
  then obtain rs where "build_results df s idxs = Inr rs" by auto
  moreover obtain r where "build_result df s i = Inr r"
    using build_result_ok [OF assms, of i s] Cons.prems by auto
  ultimately show ?case by simp
qed

lemma query_similarities_ok:
  assumes "bundle_ok vec lsi V df"
  shows "\<exists>sims. query_similarities sw q vec lsi V = Inr sims \<and> length sims = length (rws V)"
  using assms
  by (simp add: query_similarities_def bundle_ok_def lsi_transform_def transform_def
      cosine_similarity_def Let_def)

lemma find_similar_incidents_ok:
  assumes ok: "bundle_ok vec lsi V df"
    and qs: "query_similarities sw q vec lsi V = Inr sims"
    and len: "length sims = length (rws V)"
  shows "\<exists>rs. find_similar_incidents sw q vec lsi V df k = Inr rs"
proof -
  have "\<forall>i\<in>set (slice_to k (rev (np_argsort sims))). i < nrows df"
    using set_slice_to [of k "rev (np_argsort sims)"] ok len
    by (auto simp: bundle_ok_def)
  then obtain rs where "build_results df sims (slice_to k (rev (np_argsort sims))) = Inr rs"
    using build_results_ok ok unfolding bundle_ok_def by blast
  then show ?thesis
    by (simp add: find_similar_incidents_def qs)
qed

subsection \<open>The example query\<close>





lemma argsort_100: "np_argsort [1, 0, 0::real] = [1, 2, 0]"
  by (simp add: np_argsort_def upt_rec_numeral)

lemma argsort_010: "np_argsort [0, 1, 0::real] = [0, 2, 1]"
  by (simp add: np_argsort_def upt_rec_numeral)


lemma ex_bundle_ok: "bundle_ok ex_vec ex_lsi ex_vectors ex_df"
  by (simp add: bundle_ok_def ex_vec_def ex_lsi_def ex_vectors_def ex_df_def has_column_def)

subsection \<open>Ranking\<close>




subsection \<open>Queries without a known term\<close>

lemma count_tokens_unknown:
  "\<forall>t\<in>set ts. map_of V t = None \<Longrightarrow> count_tokens V ts acc = acc"
  by (induction ts arbitrary: acc) simp_all

lemma dot_zero_left: "\<forall>v\<in>set x. v = 0 \<Longrightarrow> dot x y = 0"
proof (induction x arbitrary: y)
  case Nil
  then show ?case by (simp add: dot_def)
next
  case (Cons a x)
  then show ?case by (cases y) (simp_all add: dot_def)
qed

lemma normalize_l2_zero: "\<forall>v\<in>set x. v = 0 \<Longrightarrow> normalize_l2 x = x"
  by (simp add: normalize_l2_def dot_zero_left)

text \<open>
  Claim C6: when no token of the normalised query is a key of the vocabulary, the
  similarity with every stored record is 0 and the search raises nothing: it returns
  \<^verbatim>\<open>top_k\<close> results, or one for every record when there are fewer (for a negative
  \<^verbatim>\<open>top_k\<close>, all but the last \<^verbatim>\<open>-top_k\<close> of them), every one of similarity 0, and no
  record twice.
\<close>

theorem zero_query_similarity:
  assumes ok: "bundle_ok vec lsi V df"
    and unk: "\<forall>t\<in>set (tokenize (preprocess_text sw q)). map_of (vocabulary vec) t = None"
  shows "query_similarities sw q vec lsi V = Inr (replicate (length (rws V)) 0) \<and>
         (\<exists>rs. find_similar_incidents sw q vec lsi V df k = Inr rs \<and>
               length rs = (if 0 \<le> k then min (nat k) (length (rws V))
                            else length (rws V) - nat (- k)) \<and>
               map similarity rs = replicate (length rs) 0 \<and>
               distinct (map index rs) \<and>
               set (map index rs) \<subseteq> {0..<length (rws V)})"
proof -
  let ?n = "length (rws V)"
  have row: "tfidf_row vec (preprocess_text sw q) = []"
    using unk
    by (simp add: tfidf_row_def count_tokens_unknown normalize_sparse_def l2_norm_sparse_def)
  have z: "map (sparse_dot []) (components lsi) = replicate (length (components lsi)) 0"
  proof -
    have "sparse_dot [] = (\<lambda>_. 0)" by (rule ext) (simp add: sparse_dot_def)
    then show ?thesis by (simp add: map_replicate_const)
  qed
  have d: "dot (normalize_l2 (replicate m 0)) y = 0" for m y
    by (simp add: normalize_l2_zero dot_zero_left)
  have qs: "query_similarities sw q vec lsi V = Inr (replicate ?n 0)"
    using ok
    by (simp add: query_similarities_def bundle_ok_def lsi_transform_def transform_def
        cosine_similarity_def Let_def row z d map_replicate_const)
  obtain rs where fs: "find_similar_incidents sw q vec lsi V df k = Inr rs"
    using find_similar_incidents_ok [OF ok qs] by auto
  from fs obtain sims where q2: "query_similarities sw q vec lsi V = Inr sims"
    and br: "build_results df sims (slice_to k (rev (np_argsort sims))) = Inr rs"
    by (rule find_similar_incidents_Inr)
  have sims: "sims = replicate ?n 0" using qs q2 by simp
  let ?top = "slice_to k (rev (np_argsort sims))"
  have idx: "map index rs = ?top"
    and sim: "map similarity rs = map (\<lambda>i. sims ! i) ?top"
    using build_results_Inr [OF br] by simp_all
  have len: "length rs = (if 0 \<le> k then min (nat k) ?n else ?n - nat (- k))"
  proof -
    have "length rs = length (map index rs)" by simp
    also have "\<dots> = length ?top" by (simp only: idx)
    also have "\<dots> = (if 0 \<le> k then min (nat k) ?n else ?n - nat (- k))"
      by (simp add: length_slice_to sims)
    finally show ?thesis .
  qed
  have sub: "set ?top \<subseteq> {0..<?n}"
    using set_slice_to [of k "rev (np_argsort sims)"] by (simp add: sims)
  have zero: "\<forall>i\<in>set ?top. sims ! i = 0"
    using sub by (auto simp: sims)
  have "map similarity rs = replicate (length ?top) 0"
    unfolding sim using zero by (simp add: map_replicate_const [symmetric] cong: map_cong)
  moreover have "length ?top = length rs"
    using idx by (metis length_map)
  ultimately have simz: "map similarity rs = replicate (length rs) 0" by simp
  have dist: "distinct (map index rs)"
    unfolding idx by (simp add: distinct_slice_to)
  have sub2: "set (map index rs) \<subseteq> {0..<?n}"
    unfolding idx by (rule sub)
  from qs fs len simz dist sub2 show ?thesis by blast
qed

lemma tok_graffiti: "tokenize (preprocess_text [''the''] ''Graffiti 42'') = [''graffiti'']"
  by code_simp

lemma argsort_000: "np_argsort [0, 0, 0::real] = [0, 1, 2]"
  by (simp add: np_argsort_def upt_rec_numeral)

lemma qs_graffiti:
  "query_similarities [''the''] ''Graffiti 42'' ex_vec ex_lsi ex_vectors = Inr [0, 0, 0]"
  by (simp add: query_similarities_def tok_graffiti transform_def tfidf_row_def ex_vec_def
      ex_lsi_def ex_vectors_def normalize_sparse_def l2_norm_sparse_def lsi_transform_def
      sparse_dot_def cosine_similarity_def normalize_l2_def dot_def)

lemma ex_zero_find:
  "find_similar_incidents [''the''] ''Graffiti 42'' ex_vec ex_lsi ex_vectors ex_df 5 = Inr ex_zero_results"
  by (simp add: find_similar_incidents_def qs_graffiti argsort_000 slice_to_def build_result_def
      iloc_get_def ex_df_def plain_field_def location_field_def has_column_def ex_zero_results_def
      notna_def py_str_def)

text \<open>
  The query \<open>Graffiti 42\<close> has no term of the vocabulary of the small corpus: its three
  results have the similarity 0, in the reverse of the order of the records.
\<close>

theorem zero_query_similarity_witness:
  "bundle_ok ex_vec ex_lsi ex_vectors ex_df \<and>
   tokenize (preprocess_text [''the''] ''Graffiti 42'') = [''graffiti''] \<and>
   map_of (vocabulary ex_vec) ''graffiti'' = None \<and>
   query_similarities [''the''] ''Graffiti 42'' ex_vec ex_lsi ex_vectors = Inr [0, 0, 0] \<and>
   find_similar_incidents [''the''] ''Graffiti 42'' ex_vec ex_lsi ex_vectors ex_df 5 =
     Inr ex_zero_results \<and>
   length ex_zero_results = 3 \<and>
   map similarity ex_zero_results = [0, 0, 0] \<and>
   map index ex_zero_results = [2, 1, 0]"
proof -
  have m: "map_of (vocabulary ex_vec) ''graffiti'' = None"
    by (simp add: ex_vec_def)
  have u: "\<forall>t\<in>set (tokenize (preprocess_text [''the''] ''Graffiti 42'')).
             map_of (vocabulary ex_vec) t = None"
    by (simp add: tok_graffiti m)
  have n: "length (rws ex_vectors) = 3"
    by (simp add: ex_vectors_def)
  have r: "replicate 3 (0::real) = [0, 0, 0]"
    by (simp add: numeral_3_eq_3)
  from zero_query_similarity [OF ex_bundle_ok u, of 5]
  obtain rs where q: "query_similarities [''the''] ''Graffiti 42'' ex_vec ex_lsi ex_vectors = Inr [0, 0, 0]"
    and f: "find_similar_incidents [''the''] ''Graffiti 42'' ex_vec ex_lsi ex_vectors ex_df 5 = Inr rs"
    and l: "length rs = 3"
    and s: "map similarity rs = replicate (length rs) 0"
    unfolding n r by auto
  have e: "rs = ex_zero_results" using f ex_zero_find by simp
  have i: "map index ex_zero_results = [2, 1, 0]" by (simp add: ex_zero_results_def)
  have s3: "map similarity ex_zero_results = [0, 0, 0]"
    using s l r unfolding e by simp
  have l3: "length ex_zero_results = 3"
    using l unfolding e .
  have f3: "find_similar_incidents [''the''] ''Graffiti 42'' ex_vec ex_lsi ex_vectors ex_df 5 =
     Inr ex_zero_results"
    using f unfolding e .
  from q f3 l3 s3 ex_bundle_ok tok_graffiti m i show ?thesis by blast
qed

subsection \<open>More results asked for than records stored\<close>

text \<open>
  Claim C8: when \<open>top_k\<close> is greater than the number of stored records, the search raises
  nothing and returns one result for each record: as many results as records, with the
  indices of all records, each once.
\<close>

theorem top_k_exceeds_documents:
  assumes ok: "bundle_ok vec lsi V df"
    and big: "int (length (rws V)) < top_k"
  shows "\<exists>rs. find_similar_incidents sw q vec lsi V df top_k = Inr rs \<and>
              length rs = length (rws V) \<and>
              distinct (map index rs) \<and>
              set (map index rs) = {0..<length (rws V)}"
proof -
  obtain sims where qs: "query_similarities sw q vec lsi V = Inr sims"
    and len: "length sims = length (rws V)"
    using query_similarities_ok [OF ok] by blast
  obtain rs where fs: "find_similar_incidents sw q vec lsi V df top_k = Inr rs"
    using find_similar_incidents_ok [OF ok qs len] by auto
  from fs obtain sims' where q2: "query_similarities sw q vec lsi V = Inr sims'"
    and br: "build_results df sims' (slice_to top_k (rev (np_argsort sims'))) = Inr rs"
    by (rule find_similar_incidents_Inr)
  have [simp]: "sims' = sims" using qs q2 by simp
  have sl: "slice_to top_k (rev (np_argsort sims)) = rev (np_argsort sims)"
    using big len by (simp add: slice_to_def)
  have idx: "map index rs = rev (np_argsort sims)"
    using build_results_Inr [OF br] sl by simp
  have "length rs = length (rws V)"
    using arg_cong [OF idx, of length] len by simp
  moreover have "distinct (map index rs)" unfolding idx by simp
  moreover have "set (map index rs) = {0..<length (rws V)}" unfolding idx by (simp add: len)
  ultimately show ?thesis using fs by blast
qed

text \<open>Five results asked for on the small corpus of three records.\<close>

theorem top_k_exceeds_documents_witness:
  "bundle_ok ex_vec ex_lsi ex_vectors ex_df \<and> int (length (rws ex_vectors)) < 5 \<and>
   (\<exists>rs. find_similar_incidents [''the''] ''The Noise!'' ex_vec ex_lsi ex_vectors ex_df 5 = Inr rs \<and>
         length rs = 3 \<and> distinct (map index rs) \<and> set (map index rs) = {0..<3})"
proof -
  have l: "length (rws ex_vectors) = 3" by (simp add: ex_vectors_def)
  have b: "int (length (rws ex_vectors)) < 5" by (simp add: l)
  show ?thesis
    using top_k_exceeds_documents [OF ex_bundle_ok b, of "[''the'']" "''The Noise!''"]
      ex_bundle_ok b
    by (simp add: l)
qed

subsection \<open>Columns of a transformed text\<close>

lemma fst_set_count_add: "fst ` set (count_add j acc) = insert j (fst ` set acc)"
proof (induction acc)
  case Nil
  then show ?case by simp
next
  case (Cons p acc)
  obtain i c where p: "p = (i, c)" by (cases p)
  show ?case using Cons.IH by (auto simp: p)
qed

lemma count_tokens_columns:
  "fst ` set (count_tokens V ts acc) \<subseteq>
     fst ` set acc \<union> {j. \<exists>t\<in>set ts. map_of V t = Some j}"
proof (induction ts arbitrary: acc)
  case Nil
  then show ?case by simp
next
  case (Cons t ts)
  show ?case
  proof (cases "map_of V t")
    case None
    then show ?thesis using Cons.IH [of acc] by auto
  next
    case (Some j)
    then show ?thesis using Cons.IH [of "count_add j acc"]
      by (auto simp: fst_set_count_add)
  qed
qed

lemma fst_set_normalize_sparse: "fst ` set (normalize_sparse row) = fst ` set row"
  by (force simp: normalize_sparse_def Let_def)

lemma tfidf_row_columns:
  "fst ` set (tfidf_row vec text) \<subseteq>
     {j. \<exists>t\<in>set (tokenize text). map_of (vocabulary vec) t = Some j}"
proof -
  have "fst ` set (tfidf_row vec text) =
          fst ` set (count_tokens (vocabulary vec) (tokenize text) [])"
    by (force simp: tfidf_row_def Let_def fst_set_normalize_sparse)
  then show ?thesis
    using count_tokens_columns [of "vocabulary vec" "tokenize text" "[]"] by simp
qed

lemma fit_vectorizer_vocabulary:
  assumes "fit_vectorizer mf md docs = Inr vec"
  shows "\<exists>kept. kept \<noteq> [] \<and> vocabulary vec = zip kept [0..<length kept]"
  using assms
  by (auto simp: fit_vectorizer_def fit_vocabulary_def bind_r_eq_Inr Let_def split: if_splits)

lemma fitted_index_in_range:
  assumes "fit_vectorizer mf md docs = Inr vec" and "map_of (vocabulary vec) t = Some j"
  shows "j < length (vocabulary vec)"
proof -
  obtain kept where v: "vocabulary vec = zip kept [0..<length kept]"
    using fit_vectorizer_vocabulary [OF assms(1)] by blast
  have "(t, j) \<in> set (zip kept [0..<length kept])"
    using assms(2) v by (auto dest: map_of_SomeD)
  then have "j \<in> set [0..<length kept]" by (rule set_zip_rightD)
  then show ?thesis by (simp add: v)
qed

text \<open>
  Claim C9: for a vectorizer that \<open>vectorize_texts\<close> has fitted and any text \<open>t\<close>, the
  transform of \<open>t\<close> raises nothing, its matrix is as wide as the vocabulary, and every
  column that occurs in it is below the size of the vocabulary and is the column of a
  token of \<open>t\<close> that is in the vocabulary: a token that is not gets no entry.
\<close>

theorem transform_columns_in_range:
  assumes "vectorize_texts docs None mf md = Inr (X, vec)"
  shows "\<exists>X'. vectorize_texts [t] (Some vec) mf' md' = Inr (X', vec) \<and>
           ncols X' = length (vocabulary vec) \<and>
           (\<forall>j\<in>column_indices X'. j < length (vocabulary vec) \<and>
              (\<exists>w\<in>set (tokenize t). map_of (vocabulary vec) w = Some j))"
proof -
  have fit: "fit_vectorizer mf md docs = Inr vec"
    using assms by (auto simp: vectorize_texts_def bind_r_eq_Inr)
  have "j < length (vocabulary vec) \<and>
          (\<exists>w\<in>set (tokenize t). map_of (vocabulary vec) w = Some j)"
    if "j \<in> column_indices (transform vec [t])" for j
  proof -
    from that have "j \<in> fst ` set (tfidf_row vec t)"
      by (simp add: column_indices_def transform_def)
    then obtain w where "w \<in> set (tokenize t)" "map_of (vocabulary vec) w = Some j"
      using tfidf_row_columns [of vec t] by blast
    then show ?thesis using fitted_index_in_range [OF fit] by blast
  qed
  then show ?thesis
    by (simp add: vectorize_texts_def transform_def)
qed

lemma ex_fit_vocabulary:
  "fit_vocabulary 5000 2 ex_docs = Inr [''loud'', ''noise'', ''parking'', ''street'']"
  by code_simp

lemma ex_fit:
  "vectorize_texts ex_docs None 5000 2 = Inr (transform ex_fitted ex_docs, ex_fitted)"
  unfolding vectorize_texts_def fit_vectorizer_def ex_fit_vocabulary
  by (simp add: ex_fitted_def numeral_2_eq_2 numeral_3_eq_3)

text \<open>
  The vectorizer fitted on six texts, and the text \<open>loud noise zebra\<close>, whose last token is
  not in the vocabulary.
\<close>

theorem transform_columns_in_range_witness:
  "vectorize_texts ex_docs None 5000 2 = Inr (transform ex_fitted ex_docs, ex_fitted) \<and>
   (\<exists>X'. vectorize_texts [''loud noise zebra''] (Some ex_fitted) 5000 2 = Inr (X', ex_fitted) \<and>
           ncols X' = length (vocabulary ex_fitted) \<and>
           (\<forall>j\<in>column_indices X'. j < length (vocabulary ex_fitted) \<and>
              (\<exists>w\<in>set (tokenize ''loud noise zebra''). map_of (vocabulary ex_fitted) w = Some j)))"
  using transform_columns_in_range [OF ex_fit, of "''loud noise zebra''" 5000 2] ex_fit
  by blast

subsection \<open>A corpus without a vocabulary\<close>

lemma set_fold_first_seen:
  "set (fold (\<lambda>t V. if t \<in> set V then V else V @ [t]) ts V) = set V \<union> set ts"
  by (induction ts arbitrary: V) auto

lemma set_first_seen [simp]: "set (first_seen ts) = set ts"
  by (simp add: first_seen_def set_fold_first_seen)

lemma limit_features_none:
  assumes "\<forall>t\<in>set terms. doc_freq docs t < low"
  shows "limit_features docs high low limit terms = []"
proof -
  have "filter (\<lambda>t. doc_freq docs t \<le> high \<and> low \<le> doc_freq docs t) terms = []"
    using assms by (auto simp: filter_empty_conv)
  then show ?thesis by (simp add: limit_features_def)
qed

lemma fit_vocabulary_fails:
  assumes "texts = [] \<or>
           (\<forall>t\<in>set (concat (map tokenize texts)). doc_freq (map tokenize texts) t < md)"
  shows "\<exists>msg. fit_vocabulary mf md texts = Inl (ValueError msg)"
proof -
  have "\<forall>t\<in>set (concat (map tokenize texts)). doc_freq (map tokenize texts) t < md"
    using assms by auto
  then have "limit_features (map tokenize texts) (length texts) md mf
               (sort (first_seen (concat (map tokenize texts)))) = []"
    by (intro limit_features_none) simp
  then show ?thesis
    by (simp add: fit_vocabulary_def Let_def)
qed

lemma cell_texts_Str [simp]: "cell_texts (map Str xs) = Inr xs"
  by (induction xs) simp_all

lemma map_of_assign_col_same [simp]: "map_of (assign_col c v cs) c = Some v"
  by (induction cs) auto

text \<open>
  Claim C4, as the code has it: when the frame has no record, or no term of the
  preprocessed texts occurs in \<^verbatim>\<open>min_df\<close> records, the fit of the vectorizer raises
  \<^verbatim>\<open>ValueError\<close>, which \<open>main\<close> does not handle: the run ends with that exception in
  step 3, before the projection (step 4) and the clustering (step 5) start.
\<close>

theorem main_vectorizer_failure_unhandled:
  assumes col: "map_of (cols df) ''combined_text'' = Some cells"
    and len: "length cells = nrows df"
    and texts: "texts = map (\<lambda>c. preprocess_text (stop_words e) (py_str c)) cells"
    and none: "texts = [] \<or>
           (\<forall>t\<in>set (concat (map tokenize texts)).
              doc_freq (map tokenize texts) t < min_df cfg)"
  shows "\<exists>msg. main_with e cfg (Some df) =
           ([Step 1, Step 2, Saved ''processed_data.csv'', Step 3], Unhandled (ValueError msg))"
proof -
  define df' where
    "df' = df\<lparr>cols := assign_col ''preprocessed_text'' (map Str texts) (cols df)\<rparr>"
  have pre: "preprocess_dataframe (stop_words e) df = Inr df'"
    using col len by (simp add: preprocess_dataframe_def set_column_def df'_def texts comp_def)
  have tc: "text_column df' ''preprocessed_text'' = Inr texts"
    by (simp add: text_column_def df'_def)
  obtain msg where "fit_vocabulary (max_features cfg) (min_df cfg) texts = Inl (ValueError msg)"
    using fit_vocabulary_fails [OF none] by blast
  then have vt: "vectorize_texts texts None (max_features cfg) (min_df cfg) = Inl (ValueError msg)"
    by (simp add: vectorize_texts_def fit_vectorizer_def)
  have "main_with e cfg (Some df) =
          ([Step 1, Step 2, Saved ''processed_data.csv'', Step 3], Unhandled (ValueError msg))"
    by (simp add: main_with_def pre tc vt)
  then show ?thesis by blast
qed

lemma pre_rare:
  "[''noise loud'', ''parking blocked''] =
     map (\<lambda>c. preprocess_text (stop_words ex_env) (py_str c))
       [Str ''Noise - Loud'', Str ''Parking - Blocked'']"
proof -
  have "preprocess_text [''the''] ''Noise - Loud'' = ''noise loud''" by code_simp
  moreover have "preprocess_text [''the''] ''Parking - Blocked'' = ''parking blocked''"
    by code_simp
  ultimately show ?thesis by (simp add: ex_env_def py_str_def)
qed

lemma rare_none:
  "[''noise loud'', ''parking blocked''] = [] \<or>
   (\<forall>t\<in>set (concat (map tokenize [''noise loud'', ''parking blocked''])).
      doc_freq (map tokenize [''noise loud'', ''parking blocked'']) t < min_df default_config)"
proof -
  have "\<forall>t\<in>set (concat (map tokenize [''noise loud'', ''parking blocked''])).
          doc_freq (map tokenize [''noise loud'', ''parking blocked'']) t < 2"
    by code_simp
  then show ?thesis by (simp add: default_config_def)
qed

lemma rare_col:
  "map_of (cols ex_rare_df) ''combined_text'' = Some [Str ''Noise - Loud'', Str ''Parking - Blocked'']"
  by (simp add: ex_rare_df_def)

lemma rare_len: "length [Str ''Noise - Loud'', Str ''Parking - Blocked''] = nrows ex_rare_df"
  by (simp add: ex_rare_df_def)

text \<open>Two records without a common term, with \<^verbatim>\<open>min_df = 2\<close>.\<close>

theorem main_vectorizer_failure_unhandled_witness:
  "map_of (cols ex_rare_df) ''combined_text'' = Some [Str ''Noise - Loud'', Str ''Parking - Blocked''] \<and>
   length [Str ''Noise - Loud'', Str ''Parking - Blocked''] = nrows ex_rare_df \<and>
   ([''noise loud'', ''parking blocked''] = [] \<or>
     (\<forall>t\<in>set (concat (map tokenize [''noise loud'', ''parking blocked''])).
        doc_freq (map tokenize [''noise loud'', ''parking blocked'']) t < min_df default_config)) \<and>
   (\<exists>msg. main_with ex_env default_config (Some ex_rare_df) =
           ([Step 1, Step 2, Saved ''processed_data.csv'', Step 3], Unhandled (ValueError msg)))"
  using main_vectorizer_failure_unhandled [OF rare_col rare_len pre_rare rare_none]
    rare_col rare_len rare_none
  by blast

lemma fv_empty: "fit_vocabulary 5000 2 [] = Inl (ValueError ''empty vocabulary'')"
  by code_simp

lemma fv_rare:
  "fit_vocabulary 5000 2 [''noise loud'', ''parking blocked''] = Inl (ValueError ''no terms remain'')"
  by code_simp

lemma main_empty:
  "main ex_env (Some ex_empty_df) =
     ([Step 1, Step 2, Saved ''processed_data.csv'', Step 3],
      Unhandled (ValueError ''empty vocabulary''))"
proof -
  have 1: "preprocess_dataframe (stop_words ex_env) ex_empty_df =
      Inr (ex_empty_df\<lparr>cols := assign_col ''preprocessed_text'' (map Str []) (cols ex_empty_df)\<rparr>)"
    by (simp add: preprocess_dataframe_def ex_empty_df_def set_column_def)
  have 2: "text_column (ex_empty_df\<lparr>cols := assign_col ''preprocessed_text'' (map Str [])
              (cols ex_empty_df)\<rparr>) ''preprocessed_text'' = Inr []"
    by (simp add: text_column_def)
  have 3: "vectorize_texts [] None (max_features default_config) (min_df default_config) =
             Inl (ValueError ''empty vocabulary'')"
    by (simp add: vectorize_texts_def fit_vectorizer_def default_config_def fv_empty)
  show ?thesis
    unfolding main_def main_with_def
    by (simp only: option.case 1 2 3 then_run_simps bind_r_simps prod.case sum.case
        fst_conv snd_conv append.simps)
qed

lemma main_rare:
  "main ex_env (Some ex_rare_df) =
     ([Step 1, Step 2, Saved ''processed_data.csv'', Step 3],
      Unhandled (ValueError ''no terms remain''))"
proof -
  have 1: "preprocess_dataframe (stop_words ex_env) ex_rare_df =
      Inr (ex_rare_df\<lparr>cols := assign_col ''preprocessed_text''
             (map Str [''noise loud'', ''parking blocked'']) (cols ex_rare_df)\<rparr>)"
    unfolding preprocess_dataframe_def rare_col option.case pre_rare
    by (simp add: set_column_def ex_rare_df_def comp_def)
  have 2: "text_column (ex_rare_df\<lparr>cols := assign_col ''preprocessed_text''
             (map Str [''noise loud'', ''parking blocked'']) (cols ex_rare_df)\<rparr>)
             ''preprocessed_text'' = Inr [''noise loud'', ''parking blocked'']"
    by (simp add: text_column_def)
  have 3: "vectorize_texts [''noise loud'', ''parking blocked''] None
             (max_features default_config) (min_df default_config) =
             Inl (ValueError ''no terms remain'')"
    by (simp add: vectorize_texts_def fit_vectorizer_def default_config_def fv_rare)
  show ?thesis
    unfolding main_def main_with_def
    by (simp only: option.case 1 2 3 then_run_simps bind_r_simps prod.case sum.case
        fst_conv snd_conv append.simps)
qed

text \<open>
  Claim C4 as the specification states it, with the failure reported as a configuration
  error, fails: on a frame without records, and on two records without a common term,
  \<open>main\<close> ends with the exception of the vectorizer, unhandled.
\<close>

theorem main_reports_no_configuration_error_counterexample:
  "main ex_env (Some ex_empty_df) =
     ([Step 1, Step 2, Saved ''processed_data.csv'', Step 3],
      Unhandled (ValueError ''empty vocabulary'')) \<and>
   main ex_env (Some ex_rare_df) =
     ([Step 1, Step 2, Saved ''processed_data.csv'', Step 3],
      Unhandled (ValueError ''no terms remain''))"
  by (intro conjI main_empty main_rare)

subsection \<open>The cluster report\<close>

lemma fst_set_assign_col: "fst ` set (assign_col c v cs) = insert c (fst ` set cs)"
proof (induction cs)
  case Nil
  then show ?case by simp
next
  case (Cons p cs)
  obtain c' v' where p: "p = (c', v')" by (cases p)
  show ?case using Cons.IH by (auto simp: p)
qed

lemma has_column_assign:
  "has_column df c' \<Longrightarrow> has_column (df\<lparr>cols := assign_col c v (cols df)\<rparr>) c'"
  using fst_set_assign_col [of c v "cols df"] by (auto simp: has_column_def)

lemma has_column_select_rows [simp]: "has_column (select_rows bs df) c = has_column df c"
  by (force simp: has_column_def select_rows_def)

lemma has_column_head [simp]: "has_column (head n df) c = has_column df c"
  by (force simp: has_column_def head_def)

lemma length_select_mask:
  "length bs = length xs \<Longrightarrow> length (select_mask bs xs) = length (filter id bs)"
proof (induction bs arbitrary: xs)
  case Nil
  then show ?case by (simp add: select_mask_def)
next
  case (Cons b bs)
  then obtain y ys where "xs = y # ys" by (cases xs) auto
  with Cons show ?case by (auto simp: select_mask_def)
qed

lemma length_filter_eq: "length (filter (\<lambda>l. l = k) ls) = count_list ls k"
  by (induction ls) auto

lemma select_columns_ok:
  "\<forall>c\<in>set cs. has_column df c \<Longrightarrow> \<exists>sel. select_columns df cs = Inr sel"
proof (induction cs)
  case Nil
  then show ?case by simp
next
  case (Cons c cs)
  then obtain sel where "select_columns df cs = Inr sel" by auto
  moreover obtain cells where "map_of (cols df) c = Some cells"
    using Cons.prems has_column_map_of by force
  ultimately show ?case by simp
qed

lemma to_records_ok:
  "\<forall>c\<in>set cs. has_column df c \<Longrightarrow>
     \<exists>recs. to_records df cs = Inr recs \<and> length recs = nrows df"
  using select_columns_ok [of cs df] by (auto simp: to_records_def)

lemma named_scores_ok:
  "\<forall>i\<in>set idxs. i < length names \<Longrightarrow>
     \<exists>r. named_scores names scores idxs = Inr r \<and> length r = length idxs"
  by (induction idxs) auto

lemma length_feature_names [simp]: "length (feature_names vec) = length (vocabulary vec)"
  by (simp add: feature_names_def)

lemma get_cluster_top_terms_ok:
  assumes "length labels = length (srows X)" and "ncols X = length (vocabulary vec)"
    and "0 < count_list labels k" and "0 \<le> tt"
  shows "\<exists>r. get_cluster_top_terms X labels vec k tt = Inr r \<and> length r = min (nat tt) (ncols X)"
proof -
  let ?bs = "map (\<lambda>l. l = k) labels"
  have "length (select_mask ?bs (srows X)) = count_list labels k"
    using assms(1) by (simp add: length_select_mask length_filter_eq)
  then have ne: "select_mask ?bs (srows X) \<noteq> []" using assms(3) by auto
  define ms where
    "ms = map (\<lambda>j. sum_list (map (\<lambda>row. entry row j) (select_mask ?bs (srows X)))
                    / real (length (select_mask ?bs (srows X)))) [0..<ncols X]"
  have mean: "mean_axis0 (ncols X) (select_mask ?bs (srows X)) = Inr ms"
    using ne by (simp add: mean_axis0_def ms_def)
  have len: "length ms = ncols X" by (simp add: ms_def)
  let ?top = "slice_to tt (rev (np_argsort ms))"
  have "\<forall>i\<in>set ?top. i < length (feature_names vec)"
    using set_slice_to [of tt "rev (np_argsort ms)"] len assms(2) by auto
  then obtain r where r: "named_scores (feature_names vec) ms ?top = Inr r"
    "length r = length ?top"
    using named_scores_ok by blast
  have "length ?top = min (nat tt) (ncols X)"
    using assms(4) len by (simp add: length_slice_to_nonneg)
  with r show ?thesis
    using assms(1) by (simp add: get_cluster_top_terms_def Let_def mean)
qed

lemma analyze_cluster_ok:
  assumes ok: "cluster_inputs_ok df labels X vec"
    and d': "set_column df ''cluster'' (map Num labels) = Inr d'"
    and mem: "0 < count_list labels (int cid)"
    and tt: "0 \<le> tt" and ex: "0 \<le> ex"
  shows "\<exists>info. analyze_cluster d' labels X vec tt ex cid = Inr info \<and>
           cluster_size info = count_list labels (int cid) \<and>
           length (examples info) = min (nat ex) (cluster_size info) \<and>
           length (top_terms_list info) = min (nat tt) (ncols X)"
proof -
  have d'_eq: "d' = df\<lparr>cols := assign_col ''cluster'' (map Num labels) (cols df)\<rparr>"
    using d' by (auto simp: set_column_def split: if_splits)
  have cl: "map_of (cols d') ''cluster'' = Some (map Num labels)"
    by (simp add: d'_eq)
  have nr: "nrows d' = nrows df" by (simp add: d'_eq)
  have hc: "has_column d' ''combined_text''" "has_column d' ''Complaint Type''"
    "has_column d' ''Descriptor''"
    using ok unfolding d'_eq cluster_inputs_ok_def by (auto intro: has_column_assign)
  let ?bs = "map (\<lambda>c. c = Num (int cid)) (map Num labels)"
  have bs: "?bs = map (\<lambda>l. l = int cid) labels" by simp
  let ?cd = "select_rows ?bs d'"
  let ?exs = "head ex ?cd"
  have size: "nrows ?cd = count_list labels (int cid)"
    using ok unfolding bs cluster_inputs_ok_def
    by (simp add: select_rows_def nr length_select_mask length_filter_eq)
  have nex: "nrows ?exs = min (nat ex) (count_list labels (int cid))"
    using ex size by (simp add: head_def length_slice_to_nonneg)
  have hex: "has_column ?exs ''combined_text''" "has_column ?exs ''Complaint Type''"
    "has_column ?exs ''Descriptor''"
    using hc by simp_all
  obtain top where top: "get_cluster_top_terms X labels vec (int cid) tt = Inr top"
    "length top = min (nat tt) (ncols X)"
    using get_cluster_top_terms_ok [of labels X vec "int cid" tt] ok mem tt
    unfolding cluster_inputs_ok_def by auto
  obtain recs where recs:
    "to_records ?exs [''combined_text'', ''Complaint Type'', ''Descriptor''] = Inr recs"
    "length recs = nrows ?exs"
    using to_records_ok [of "[''combined_text'', ''Complaint Type'', ''Descriptor'']" ?exs] hex
    by auto
  have "analyze_cluster d' labels X vec tt ex cid =
          Inr \<lparr>cluster_size = nrows ?cd, examples = recs, top_terms_list = top\<rparr>"
    unfolding analyze_cluster_def cl
    by (simp only: option.case Let_def hex top recs bind_r_simps simp_thms if_False)
  then show ?thesis using size nex recs(2) top(2) by simp
qed

lemma analyze_loop_ok:
  assumes "\<forall>cid\<in>set ids. \<exists>info. analyze_cluster d labels X vec tt ex cid = Inr info \<and> P cid info"
  shows "\<exists>rep. analyze_loop d labels X vec tt ex ids = Inr rep \<and> map fst rep = ids \<and>
           (\<forall>(cid, info)\<in>set rep. P cid info)"
  using assms
proof (induction ids)
  case Nil
  then show ?case by simp
next
  case (Cons cid ids)
  then obtain rep where "analyze_loop d labels X vec tt ex ids = Inr rep" "map fst rep = ids"
    "\<forall>(cid, info)\<in>set rep. P cid info" by auto
  moreover obtain info where "analyze_cluster d labels X vec tt ex cid = Inr info" "P cid info"
    using Cons.prems by auto
  ultimately show ?case by simp
qed

lemma analyze_clusters_result:
  assumes "store_get st dfr = Some (DF df)" "store_get st lr = Some (Labels labels)"
    "store_get st xr = Some (Matrix X)" "store_get st vr = Some (Vectorizer vec)"
    and "set_column df ''cluster'' (map Num labels) = Inr d'"
  shows "snd (analyze_clusters st dfr lr xr vr tt ex) =
           analyze_loop d' labels X vec tt ex [0..<n_unique labels]"
  using assms by (simp add: analyze_clusters_def alloc_def store_get_def Let_def)

lemma n_unique_range:
  assumes "set labels = int ` {0..<u}"
  shows "n_unique labels = u"
proof -
  have "n_unique labels = card (set labels)"
    by (simp add: n_unique_def length_remdups_card_conv)
  also have "\<dots> = card {0..<u}"
    unfolding assms by (rule card_image) (simp add: inj_on_def)
  finally show ?thesis by simp
qed

text \<open>
  Claim C7, as the code has it: \<open>analyze_clusters\<close> takes the number of clusters from the
  labels that occur and reports the ids below that number. When the labels that occur are
  exactly the ids \<open>0\<close> to \<open>u - 1\<close>, and \<^verbatim>\<open>top_terms\<close> and \<^verbatim>\<open>examples_per_cluster\<close> are not
  negative, it returns a report without raising, with these ids in order, and every
  cluster in it has its size, which is at least one, \<^verbatim>\<open>min(examples_per_cluster, size)\<close>
  examples and \<^verbatim>\<open>min(top_terms, |V|)\<close> top terms.
\<close>

theorem analyze_clusters_reports_present_ids:
  assumes st: "store_get st dfr = Some (DF df)" "store_get st lr = Some (Labels labels)"
    "store_get st xr = Some (Matrix X)" "store_get st vr = Some (Vectorizer vec)"
    and ok: "cluster_inputs_ok df labels X vec"
    and cover: "set labels = int ` {0..<u}"
    and tt: "0 \<le> tt" and ex: "0 \<le> ex"
  shows "\<exists>rep. snd (analyze_clusters st dfr lr xr vr tt ex) = Inr rep \<and>
           map fst rep = [0..<u] \<and>
           (\<forall>(cid, info)\<in>set rep.
              cluster_size info = count_list labels (int cid) \<and>
              0 < cluster_size info \<and>
              length (examples info) = min (nat ex) (cluster_size info) \<and>
              length (top_terms_list info) = min (nat tt) (ncols X))"
proof -
  obtain d' where d': "set_column df ''cluster'' (map Num labels) = Inr d'"
    using ok by (auto simp: set_column_def cluster_inputs_ok_def)
  have res: "snd (analyze_clusters st dfr lr xr vr tt ex) =
               analyze_loop d' labels X vec tt ex [0..<u]"
    using analyze_clusters_result [OF st d'] n_unique_range [OF cover] by simp
  have "\<exists>info. analyze_cluster d' labels X vec tt ex cid = Inr info \<and>
          (cluster_size info = count_list labels (int cid) \<and>
           0 < cluster_size info \<and>
           length (examples info) = min (nat ex) (cluster_size info) \<and>
           length (top_terms_list info) = min (nat tt) (ncols X))"
    if "cid \<in> set [0..<u]" for cid
  proof -
    have "int cid \<in> set labels" using that cover by auto
    then have "count_list labels (int cid) \<noteq> 0"
      by (simp add: count_list_0_iff)
    then have "0 < count_list labels (int cid)" by simp
    then show ?thesis
      using analyze_cluster_ok [OF ok d' _ tt ex, of cid] by auto
  qed
  then show ?thesis
    unfolding res by (intro analyze_loop_ok) blast
qed

lemma ex_store_get:
  "store_get ex_store 0 = Some (DF ex_df)"
  "store_get ex_store 1 = Some (Labels [0, 0, 1])"
  "store_get ex_store 2 = Some (Matrix ex_matrix)"
  "store_get ex_store 3 = Some (Vectorizer ex_vec)"
  by (simp_all add: store_get_def ex_store_def)

lemma ex_store_gap_get:
  "store_get ex_store_gap 0 = Some (DF ex_df)"
  "store_get ex_store_gap 1 = Some (Labels [0, 2, 2])"
  "store_get ex_store_gap 2 = Some (Matrix ex_matrix)"
  "store_get ex_store_gap 3 = Some (Vectorizer ex_vec)"
  by (simp_all add: store_get_def ex_store_gap_def)

lemma ex_inputs_ok: "cluster_inputs_ok ex_df [0, 0, 1] ex_matrix ex_vec"
  by (simp add: cluster_inputs_ok_def ex_df_def ex_matrix_def ex_vec_def has_column_def)

lemma ex_cover: "set [0, 0, 1 :: int] = int ` {0..<2}"
  by (auto simp: numeral_2_eq_2 atLeast0_lessThan_Suc)

text \<open>The small corpus with the labels 0, 0, 1: both ids that occur are reported.\<close>

theorem analyze_clusters_reports_present_ids_witness:
  "store_get ex_store 0 = Some (DF ex_df) \<and> store_get ex_store 1 = Some (Labels [0, 0, 1]) \<and>
   store_get ex_store 2 = Some (Matrix ex_matrix) \<and>
   store_get ex_store 3 = Some (Vectorizer ex_vec) \<and>
   cluster_inputs_ok ex_df [0, 0, 1] ex_matrix ex_vec \<and> set [0, 0, 1 :: int] = int ` {0..<2} \<and>
   (\<exists>rep. snd (analyze_clusters ex_store 0 1 2 3 10 5) = Inr rep \<and>
           map fst rep = [0..<2] \<and>
           (\<forall>(cid, info)\<in>set rep.
              cluster_size info = count_list [0, 0, 1] (int cid) \<and>
              0 < cluster_size info \<and>
              length (examples info) = min (nat 5) (cluster_size info) \<and>
              length (top_terms_list info) = min (nat 10) (ncols ex_matrix)))"
proof -
  have "(0::int) \<le> 10" and "(0::int) \<le> 5" by simp_all
  from analyze_clusters_reports_present_ids [OF ex_store_get ex_inputs_ok ex_cover this]
  show ?thesis using ex_store_get ex_inputs_ok ex_cover by blast
qed

lemma ex_set_column:
  "length labels = 3 \<Longrightarrow>
     set_column ex_df ''cluster'' (map Num labels) = Inr (ex_df_clustered labels)"
  by (simp add: set_column_def ex_df_def ex_df_clustered_def)

lemma ex_feature_names: "feature_names ex_vec = [''noise'', ''parking'', ''street'']"
  by (simp add: feature_names_def ex_vec_def)

lemma ex_top0:
  "get_cluster_top_terms ex_matrix [0, 0, 1] ex_vec 0 10 =
     Inr [(''noise'', 1), (''street'', 0), (''parking'', 0)]"
  by (simp add: get_cluster_top_terms_def ex_matrix_def select_mask_def mean_axis0_def entry_def
      upt_0_3 argsort_100 slice_to_def ex_feature_names)

lemma ex_top1:
  "get_cluster_top_terms ex_matrix [0, 0, 1] ex_vec 1 10 =
     Inr [(''parking'', 1), (''street'', 0), (''noise'', 0)]"
  by (simp add: get_cluster_top_terms_def ex_matrix_def select_mask_def mean_axis0_def entry_def
      upt_0_3 argsort_010 slice_to_def ex_feature_names)

lemma ex_top_gap0:
  "get_cluster_top_terms ex_matrix [0, 2, 2] ex_vec 0 10 =
     Inr [(''noise'', 1), (''street'', 0), (''parking'', 0)]"
  by (simp add: get_cluster_top_terms_def ex_matrix_def select_mask_def mean_axis0_def entry_def
      upt_0_3 argsort_100 slice_to_def ex_feature_names)

lemma ex_top_gap1: "get_cluster_top_terms ex_matrix [0, 2, 2] ex_vec 1 10 = Inl ZeroDivisionError"
  by (simp add: get_cluster_top_terms_def ex_matrix_def select_mask_def mean_axis0_def)

lemma ex_cluster0:
  "analyze_cluster (ex_df_clustered [0, 0, 1]) [0, 0, 1] ex_matrix ex_vec 10 5 0 =
     Inr (snd (ex_report ! 0))"
  by (simp add: analyze_cluster_def ex_df_clustered_def select_rows_def select_mask_def head_def
      slice_to_def has_column_def ex_top0 to_records_def ex_report_def upt_0_3 upt_0_2)

lemma ex_cluster1:
  "analyze_cluster (ex_df_clustered [0, 0, 1]) [0, 0, 1] ex_matrix ex_vec 10 5 1 =
     Inr (snd (ex_report ! 1))"
  using ex_top1
  by (simp add: analyze_cluster_def ex_df_clustered_def select_rows_def select_mask_def head_def
      slice_to_def has_column_def to_records_def ex_report_def upt_0_3 upt_0_2)

lemma ex_cluster_gap0:
  "\<exists>info. analyze_cluster (ex_df_clustered [0, 2, 2]) [0, 2, 2] ex_matrix ex_vec 10 5 0 = Inr info"
  by (simp add: analyze_cluster_def ex_df_clustered_def select_rows_def select_mask_def head_def
      slice_to_def has_column_def ex_top_gap0 to_records_def upt_0_3 upt_0_2)

lemma ex_cluster_gap1:
  "analyze_cluster (ex_df_clustered [0, 2, 2]) [0, 2, 2] ex_matrix ex_vec 10 5 1 =
     Inl ZeroDivisionError"
  using ex_top_gap1
  by (simp add: analyze_cluster_def ex_df_clustered_def select_rows_def select_mask_def head_def
      slice_to_def has_column_def to_records_def upt_0_3 upt_0_2)

lemma ex_n_unique: "n_unique [0, 0, 1] = 2" "n_unique [0, 2, 2] = 2"
  by (simp_all add: n_unique_def)

lemma ex_analyze: "snd (analyze_clusters ex_store 0 1 2 3 10 5) = Inr ex_report"
proof -
  have "snd (analyze_clusters ex_store 0 1 2 3 10 5) =
          analyze_loop (ex_df_clustered [0, 0, 1]) [0, 0, 1] ex_matrix ex_vec 10 5 [0..<2]"
    using analyze_clusters_result [OF ex_store_get ex_set_column, of 10 5]
    by (simp add: ex_n_unique)
  also have "\<dots> = Inr [(0, snd (ex_report ! 0)), (1, snd (ex_report ! 1))]"
    using ex_cluster0 ex_cluster1 by (simp add: upt_0_2)
  also have "[(0, snd (ex_report ! 0)), (1, snd (ex_report ! 1))] = ex_report"
    by (simp add: ex_report_def)
  finally show ?thesis .
qed

lemma ex_analyze_gap: "snd (analyze_clusters ex_store_gap 0 1 2 3 10 5) = Inl ZeroDivisionError"
proof -
  have "snd (analyze_clusters ex_store_gap 0 1 2 3 10 5) =
          analyze_loop (ex_df_clustered [0, 2, 2]) [0, 2, 2] ex_matrix ex_vec 10 5 [0..<2]"
    using analyze_clusters_result [OF ex_store_gap_get ex_set_column, of 10 5]
    by (simp add: ex_n_unique)
  also have "\<dots> = Inl ZeroDivisionError"
    using ex_cluster_gap0 ex_cluster_gap1 by (auto simp add: upt_0_2)
  finally show ?thesis .
qed

text \<open>
  Claim C7 as the specification states it fails on both outcomes of a clustering with
  three clusters. With the labels 0, 0, 1 the report has the ids 0 and 1 and no entry for
  the empty cluster 2. With the labels 0, 2, 2 the analysis of the empty cluster 1 raises
  \<^verbatim>\<open>ZeroDivisionError\<close>, so that there is no report.
\<close>

theorem empty_cluster_counterexample:
  "snd (analyze_clusters ex_store 0 1 2 3 10 5) = Inr ex_report \<and> map fst ex_report = [0, 1] \<and>
   snd (analyze_clusters ex_store_gap 0 1 2 3 10 5) = Inl ZeroDivisionError"
  by (intro conjI ex_analyze ex_analyze_gap) (simp add: ex_report_def)

subsection \<open>The effective number of components\<close>

lemma then_run_Inr:
  assumes "then_run r f = (es, Inr v)"
  obtains es1 a es2 where "r = (es1, Inr a)" "f a = (es2, Inr v)" "es = es1 @ es2"
  using assms by (auto simp: then_run_def split: prod.splits sum.splits)

lemma vectorize_texts_ncols:
  "vectorize_texts texts v mf md = Inr (X, vec) \<Longrightarrow> ncols X = length (vocabulary vec)"
  by (cases v) (auto simp: vectorize_texts_def transform_def bind_r_eq_Inr split: if_splits)

lemma main_completed:
  assumes "main_with e cfg (Some df0) = (tr, Completed md)"
  shows "\<exists>df texts X vec V M.
           preprocess_dataframe (stop_words e) df0 = Inr df \<and>
           text_column df ''preprocessed_text'' = Inr texts \<and>
           vectorize_texts texts None (max_features cfg) (min_df cfg) = Inr (X, vec) \<and>
           apply_lsi e X (lsi_components cfg) (random_state cfg) = Inr (V, M) \<and>
           md = \<lparr>md_dataset_info = dataset_info_of df X V (n_clusters cfg) vec,
                 md_configuration = cfg\<rparr>"
  using assms
  apply (simp add: main_with_def split: prod.splits sum.splits)
  apply (elim then_run_Inr)
  apply (auto split: prod.splits elim!: then_run_Inr simp: bind_r_eq_Inr)
  done

text \<open>
  Claim C5: in a run of \<open>main\<close> that completes, when the requested number of components is
  greater than the size of the vocabulary minus one, \<open>apply_lsi\<close> asks the factorisation
  for exactly that size minus one components on the TF-IDF matrix of the preprocessed
  texts, which has a column for each term of the vocabulary. The entry
  \<^verbatim>\<open>n_components_lsi\<close> of the saved metadata is the number of columns of the latent
  vectors that the factorisation returned, and the requested number stays in the
  configuration part of the metadata.
\<close>

theorem clamped_fit_recorded_width:
  assumes run: "main_with e cfg (Some df0) = (tr, Completed md)"
    and big: "int (vocabulary_size (md_dataset_info md)) - 1 < lsi_components cfg"
  shows "\<exists>df texts X vec V M.
           preprocess_dataframe (stop_words e) df0 = Inr df \<and>
           text_column df ''preprocessed_text'' = Inr texts \<and>
           vectorize_texts texts None (max_features cfg) (min_df cfg) = Inr (X, vec) \<and>
           ncols X = vocabulary_size (md_dataset_info md) \<and>
           actual_n_components X (lsi_components cfg) =
             int (vocabulary_size (md_dataset_info md)) - 1 \<and>
           apply_lsi e X (lsi_components cfg) (random_state cfg) = Inr (V, M) \<and>
           svd_fit_transform e (int (vocabulary_size (md_dataset_info md)) - 1)
             (random_state cfg) X = Inr (V, M) \<and>
           n_components_lsi (md_dataset_info md) = shape1 V \<and>
           lsi_components (md_configuration md) = lsi_components cfg"
proof -
  obtain df texts X vec V M where
    pre: "preprocess_dataframe (stop_words e) df0 = Inr df"
    and tc: "text_column df ''preprocessed_text'' = Inr texts"
    and vt: "vectorize_texts texts None (max_features cfg) (min_df cfg) = Inr (X, vec)"
    and lsi: "apply_lsi e X (lsi_components cfg) (random_state cfg) = Inr (V, M)"
    and md: "md = \<lparr>md_dataset_info = dataset_info_of df X V (n_clusters cfg) vec,
                    md_configuration = cfg\<rparr>"
    using main_completed [OF run] by blast
  have nX: "ncols X = length (vocabulary vec)"
    using vt by (rule vectorize_texts_ncols)
  have vs: "ncols X = vocabulary_size (md_dataset_info md)"
    and nc: "n_components_lsi (md_dataset_info md) = shape1 V"
    and cf: "lsi_components (md_configuration md) = lsi_components cfg"
    by (simp_all add: md dataset_info_of_def nX)
  have a: "actual_n_components X (lsi_components cfg) =
             int (vocabulary_size (md_dataset_info md)) - 1"
    using big by (simp add: actual_n_components_def vs)
  have fit: "svd_fit_transform e (int (vocabulary_size (md_dataset_info md)) - 1)
               (random_state cfg) X = Inr (V, M)"
    using lsi unfolding apply_lsi_def a .
  from pre tc vt vs a lsi fit nc cf show ?thesis by blast
qed

text \<open>
  With a vocabulary of one term the clamp is 0, whatever number of components is asked
  for: the factorisation is called with no component at all.
\<close>

lemma apply_lsi_one_term:
  "ncols X = 1 \<Longrightarrow> 0 \<le> k \<Longrightarrow> apply_lsi e X k seed = svd_fit_transform e 0 seed X"
  by (simp add: apply_lsi_def actual_n_components_def)

lemma search_examples_ok:
  assumes "bundle_ok vec lsi V df"
  shows "\<exists>r. search_examples sw vec lsi V df queries = Inr r"
proof (induction queries)
  case Nil
  then show ?case by simp
next
  case (Cons q queries)
  then obtain r where r: "search_examples sw vec lsi V df queries = Inr r" by blast
  obtain sims where "query_similarities sw q vec lsi V = Inr sims" "length sims = length (rws V)"
    using query_similarities_ok [OF assms] by blast
  then obtain rs where "find_similar_incidents sw q vec lsi V df 5 = Inr rs"
    using find_similar_incidents_ok [OF assms] by blast
  with r show ?case by simp
qed

lemma analyze_clusters_call_ok:
  assumes ok: "cluster_inputs_ok df labels X vec"
    and cover: "set labels = int ` {0..<u}"
  shows "\<exists>rep. analyze_clusters_call df labels X vec 10 5 = Inr rep"
proof -
  obtain d' where d': "set_column df ''cluster'' (map Num labels) = Inr d'"
    using ok by (auto simp: set_column_def cluster_inputs_ok_def)
  let ?st = "[DF df, Labels labels, Matrix X, Vectorizer vec]"
  have st: "store_get ?st 0 = Some (DF df)" "store_get ?st 1 = Some (Labels labels)"
    "store_get ?st 2 = Some (Matrix X)" "store_get ?st 3 = Some (Vectorizer vec)"
    by (simp_all add: store_get_def)
  have res: "analyze_clusters_call df labels X vec 10 5 =
               analyze_loop d' labels X vec 10 5 [0..<u]"
    unfolding analyze_clusters_call_def
    using analyze_clusters_result [OF st d'] n_unique_range [OF cover] by simp
  have "\<exists>info. analyze_cluster d' labels X vec 10 5 cid = Inr info \<and> True"
    if "cid \<in> set [0..<u]" for cid
  proof -
    have "int cid \<in> set labels" using that cover by auto
    then have "count_list labels (int cid) \<noteq> 0"
      by (simp add: count_list_0_iff)
    then have "0 < count_list labels (int cid)" by simp
    then show ?thesis
      using analyze_cluster_ok [OF ok d', of cid 10 5] by auto
  qed
  then have "\<exists>rep. analyze_loop d' labels X vec 10 5 [0..<u] = Inr rep \<and> map fst rep = [0..<u] \<and>
           (\<forall>(cid, info)\<in>set rep. True)"
    by (intro analyze_loop_ok) blast
  then show ?thesis unfolding res by blast
qed

lemma ex_wide_cells:
  "map (\<lambda>c. Str (preprocess_text [''the''] (py_str c)))
     [Str ''Noise - Loud Music'', Str ''Noise - Party Street'', Str ''Loud Party - Parking'',
      Str ''Music - Street Parking'', Str ''Blocked Driveway - Illegal'',
      Str ''Blocked - Car Noise'', Str ''Driveway - Car Loud'', Str ''Illegal - Music Car'']
     = map Str ex_wide_texts"
proof -
  have "map (preprocess_text [''the''])
          [''Noise - Loud Music'', ''Noise - Party Street'', ''Loud Party - Parking'',
           ''Music - Street Parking'', ''Blocked Driveway - Illegal'', ''Blocked - Car Noise'',
           ''Driveway - Car Loud'', ''Illegal - Music Car''] = ex_wide_texts"
    by code_simp
  then have "map Str (map (preprocess_text [''the''])
          [''Noise - Loud Music'', ''Noise - Party Street'', ''Loud Party - Parking'',
           ''Music - Street Parking'', ''Blocked Driveway - Illegal'', ''Blocked - Car Noise'',
           ''Driveway - Car Loud'', ''Illegal - Music Car'']) = map Str ex_wide_texts"
    by (rule arg_cong)
  then show ?thesis by (simp add: py_str_def)
qed

lemma ex_wide_fit_vocabulary: "fit_vocabulary 5000 2 ex_wide_texts = Inr ex_wide_terms"
  by code_simp

lemma ex_wide_mod: "map (\<lambda>i. int i mod 7) [0..<8] = ex_wide_labels"
  by code_simp

lemma ex_wide_cover: "set ex_wide_labels = int ` {0..<7}"
  by code_simp

lemma ex_wide_shape: "ncols ex_wide_matrix = 10" "length (srows ex_wide_matrix) = 8"
  by (simp_all add: ex_wide_matrix_def transform_def ex_wide_vec_def ex_wide_terms_def
      ex_wide_texts_def)

lemma ex_wide_preprocess: "preprocess_dataframe (stop_words ex_env) ex_wide_df = Inr ex_wide_pre"
  using ex_wide_cells
  by (simp add: preprocess_dataframe_def ex_wide_df_def ex_env_def set_column_def ex_wide_pre_def
      ex_wide_texts_def del: list.map)

lemma ex_wide_text_column: "text_column ex_wide_pre ''preprocessed_text'' = Inr ex_wide_texts"
  by (simp add: text_column_def ex_wide_pre_def ex_wide_df_def ex_wide_texts_def)

lemma ex_wide_vectorize:
  "vectorize_texts ex_wide_texts None (max_features default_config) (min_df default_config) =
     Inr (ex_wide_matrix, ex_wide_vec)"
  unfolding vectorize_texts_def fit_vectorizer_def default_config_def config.simps
    ex_wide_fit_vocabulary ex_wide_matrix_def ex_wide_vec_def
  by simp

lemma ex_wide_fit:
  "svd_fit_transform ex_env 9 (random_state default_config) ex_wide_matrix =
     Inr (ex_wide_vectors, ex_wide_lsi)"
proof -
  have "srows ex_wide_matrix \<noteq> []" using ex_wide_shape(2) by auto
  then show ?thesis
    by (simp add: ex_env_def ex_svd_def ex_wide_shape ex_wide_vectors_def ex_wide_lsi_def)
qed

lemma ex_wide_clamp: "actual_n_components ex_wide_matrix (lsi_components default_config) = 9"
  by (simp add: actual_n_components_def default_config_def ex_wide_shape)

lemma ex_wide_apply_lsi:
  "apply_lsi ex_env ex_wide_matrix (lsi_components default_config) (random_state default_config) =
     Inr (ex_wide_vectors, ex_wide_lsi)"
  unfolding apply_lsi_def ex_wide_clamp by (rule ex_wide_fit)

lemma ex_wide_run: "main ex_env (Some ex_wide_df) = (ex_trace, Completed ex_wide_md)"
proof -
  have nV: "length (rws ex_wide_vectors) = 8"
    by (simp add: ex_wide_vectors_def ex_wide_shape)
  have km: "apply_kmeans ex_env ex_wide_vectors (n_clusters default_config)
              (random_state default_config) = Inr (ex_wide_labels, [])"
    by (simp add: apply_kmeans_def ex_env_def ex_kmeans_def default_config_def nV ex_wide_mod)
  have hc: "has_column ex_wide_pre ''combined_text''" "has_column ex_wide_pre ''Complaint Type''"
    "has_column ex_wide_pre ''Descriptor''"
    by (simp_all add: ex_wide_pre_def ex_wide_df_def has_column_def)
  have nr: "nrows ex_wide_pre = 8" by (simp add: ex_wide_pre_def ex_wide_df_def)
  have nl: "length ex_wide_labels = 8" by (simp add: ex_wide_labels_def)
  have nv: "length (vocabulary ex_wide_vec) = 10"
    by (simp add: ex_wide_vec_def ex_wide_terms_def)
  obtain dc where sc: "set_column ex_wide_pre ''cluster'' (map Num ex_wide_labels) = Inr dc"
    by (simp add: set_column_def nr nl)
  have "cluster_inputs_ok ex_wide_pre ex_wide_labels ex_wide_matrix ex_wide_vec"
    using hc by (simp add: cluster_inputs_ok_def nr nl nv ex_wide_shape)
  then obtain rep where
    an: "analyze_clusters_call ex_wide_pre ex_wide_labels ex_wide_matrix ex_wide_vec 10 5 = Inr rep"
    using analyze_clusters_call_ok ex_wide_cover by blast
  have "rws ex_wide_vectors \<noteq> []" using nV by auto
  then have "bundle_ok ex_wide_vec ex_wide_lsi ex_wide_vectors ex_wide_pre"
    using hc nV by (simp add: bundle_ok_def nv nr ex_wide_lsi_def ex_wide_vectors_def)
  then obtain sr where se:
    "search_examples (stop_words ex_env) ex_wide_vec ex_wide_lsi ex_wide_vectors ex_wide_pre
       example_queries = Inr sr"
    using search_examples_ok by blast
  have vis: "raised (visualization ex_env ex_wide_vectors ex_wide_labels
                       (random_state default_config)) = Inr ()"
    by (simp add: raised_def ex_env_def nV)
  have rp: "raised (generate_html_report ex_env rep ex_wide_pre ex_wide_labels sr) = Inr ()"
    by (simp add: raised_def ex_env_def)
  have di: "dataset_info_of ex_wide_pre ex_wide_matrix ex_wide_vectors (n_clusters default_config)
              ex_wide_vec = md_dataset_info ex_wide_md"
    by (simp add: dataset_info_of_def nr nv ex_wide_shape ex_wide_vectors_def default_config_def
        ex_wide_md_def)
  show ?thesis
    unfolding main_def main_with_def
    by (simp add: ex_wide_preprocess ex_wide_text_column ex_wide_vectorize ex_wide_apply_lsi km
        sc an vis se rp di ex_trace_def ex_wide_md_def)
qed

text \<open>
  The run on the eight records: a vocabulary of ten terms, 150 components asked for, nine
  components asked of the factorisation, and eight columns returned and recorded.
\<close>

theorem clamped_fit_recorded_width_witness:
  "main_with ex_env default_config (Some ex_wide_df) = (ex_trace, Completed ex_wide_md) \<and>
   int (vocabulary_size (md_dataset_info ex_wide_md)) - 1 < lsi_components default_config \<and>
   preprocess_dataframe (stop_words ex_env) ex_wide_df = Inr ex_wide_pre \<and>
   text_column ex_wide_pre ''preprocessed_text'' = Inr ex_wide_texts \<and>
   vectorize_texts ex_wide_texts None (max_features default_config) (min_df default_config) =
     Inr (ex_wide_matrix, ex_wide_vec) \<and>
   ncols ex_wide_matrix = vocabulary_size (md_dataset_info ex_wide_md) \<and>
   int (vocabulary_size (md_dataset_info ex_wide_md)) - 1 = 9 \<and>
   actual_n_components ex_wide_matrix (lsi_components default_config) = 9 \<and>
   apply_lsi ex_env ex_wide_matrix (lsi_components default_config) (random_state default_config) =
     Inr (ex_wide_vectors, ex_wide_lsi) \<and>
   svd_fit_transform ex_env 9 (random_state default_config) ex_wide_matrix =
     Inr (ex_wide_vectors, ex_wide_lsi) \<and>
   n_components_lsi (md_dataset_info ex_wide_md) = shape1 ex_wide_vectors \<and>
   shape1 ex_wide_vectors = 8 \<and>
   lsi_components (md_configuration ex_wide_md) = lsi_components default_config \<and>
   lsi_components default_config = 150"
proof -
  have run: "main_with ex_env default_config (Some ex_wide_df) = (ex_trace, Completed ex_wide_md)"
    using ex_wide_run by (simp add: main_def)
  have big: "int (vocabulary_size (md_dataset_info ex_wide_md)) - 1 < lsi_components default_config"
    by (simp add: ex_wide_md_def default_config_def)
  have nine: "int (vocabulary_size (md_dataset_info ex_wide_md)) - 1 = 9"
    by (simp add: ex_wide_md_def)
  have w: "shape1 ex_wide_vectors = 8" by (simp add: ex_wide_vectors_def)
  have k: "lsi_components default_config = 150" by (simp add: default_config_def)
  from clamped_fit_recorded_width [OF run big]
  obtain df texts X vec V M where
    1: "preprocess_dataframe (stop_words ex_env) ex_wide_df = Inr df"
    and 2: "text_column df ''preprocessed_text'' = Inr texts"
    and 3: "vectorize_texts texts None (max_features default_config) (min_df default_config) =
              Inr (X, vec)"
    and 4: "ncols X = vocabulary_size (md_dataset_info ex_wide_md)"
    and 5: "actual_n_components X (lsi_components default_config) =
              int (vocabulary_size (md_dataset_info ex_wide_md)) - 1"
    and 6: "apply_lsi ex_env X (lsi_components default_config) (random_state default_config) =
              Inr (V, M)"
    and 7: "svd_fit_transform ex_env (int (vocabulary_size (md_dataset_info ex_wide_md)) - 1)
              (random_state default_config) X = Inr (V, M)"
    and 8: "n_components_lsi (md_dataset_info ex_wide_md) = shape1 V"
    and 9: "lsi_components (md_configuration ex_wide_md) = lsi_components default_config"
    by blast
  have df: "df = ex_wide_pre" using 1 ex_wide_preprocess by simp
  have texts: "texts = ex_wide_texts" using 2 ex_wide_text_column unfolding df by simp
  have X: "X = ex_wide_matrix" and vec: "vec = ex_wide_vec"
    using 3 ex_wide_vectorize unfolding texts by simp_all
  have V: "V = ex_wide_vectors" and M: "M = ex_wide_lsi"
    using 6 ex_wide_apply_lsi unfolding X by simp_all
  note f1 = 1 [unfolded df]
  note f2 = 2 [unfolded df texts]
  note f3 = 3 [unfolded texts X vec]
  note f4 = 4 [unfolded X]
  note f5 = 5 [unfolded X nine]
  note f6 = 6 [unfolded X V M]
  note f7 = 7 [unfolded X V M nine]
  note f8 = 8 [unfolded V]
  from run big f1 f2 f3 f4 nine f5 f6 f7 f8 w 9 k show ?thesis by blast
qed

text \<open>
  Claim C5 as the specification states it, with the clamped number recorded, fails on the
  same run: 150 components are requested, the vocabulary has ten terms, and the number
  that \<open>main\<close> records is 8, the number of the records, not 9.
\<close>

theorem recorded_components_counterexample:
  "main ex_env (Some ex_wide_df) = (ex_trace, Completed ex_wide_md) \<and>
   lsi_components default_config = 150 \<and>
   vocabulary_size (md_dataset_info ex_wide_md) = 10 \<and>
   total_records (md_dataset_info ex_wide_md) = 8 \<and>
   n_components_lsi (md_dataset_info ex_wide_md) = 8 \<and>
   int (n_components_lsi (md_dataset_info ex_wide_md)) \<noteq>
     int (vocabulary_size (md_dataset_info ex_wide_md)) - 1"
  using ex_wide_run by (simp add: ex_wide_md_def default_config_def)

subsection \<open>The arguments of the cluster report\<close>

text \<open>
  Claim C10: \<open>analyze_clusters\<close> leaves the objects of its caller as they were. The store
  after the call, whether it returns a report or raises, begins with the store before the
  call: the frame, the labels, the TF-IDF matrix and the vectorizer that the arguments
  refer to are unchanged, and the column \<^verbatim>\<open>cluster\<close> is written to a copy at a new address.
\<close>

theorem analyze_clusters_frame:
  "take (length st) (fst (analyze_clusters st a b c d tt ex)) = st"
  by (simp add: analyze_clusters_def alloc_def Let_def
      split: option.splits obj.splits sum.splits prod.splits)

end
